theory Spec2Isabelle
  imports Main
begin

section \<open>Exceptions, outcomes and the timer queue\<close>

text \<open>
  The scripts run on the browser's single UI thread. A handler either returns or throws;
  in both cases the assignments it made before stay in effect, so both outcomes carry the
  state. The exceptions the modelled code can raise are the \<open>TypeError\<close> of a property
  access or a call on \<open>null\<close> or \<open>undefined\<close>, and the \<open>ReferenceError\<close> of a name that no
  script declares.
\<close>

datatype exn = TypeError | ReferenceError

datatype 's outcome = Returned 's | Threw exn 's

fun state_of :: "'s outcome \<Rightarrow> 's" where
  "state_of (Returned s) = s"
| "state_of (Threw e s) = s"

fun threw :: "'s outcome \<Rightarrow> bool" where
  "threw (Returned s) = False"
| "threw (Threw e s) = True"

text \<open>
  \<open>setTimeout\<close>: pending timers are kept in firing order, by due time and, among equal due
  times, by the order of the calls. The head of the list is the next timer to fire.
\<close>

fun enqueue :: "nat \<times> 'cb \<Rightarrow> (nat \<times> 'cb) list \<Rightarrow> (nat \<times> 'cb) list" where
  "enqueue t [] = [t]"
| "enqueue t (u # us) = (if fst t < fst u then t # u # us else u # enqueue t us)"

section \<open>The DOM book (part 000)\<close>

subsection \<open>Data\<close>

record page_data =
  pd_text :: string
  pd_image :: string

record story_data =
  sd_title :: string
  sd_ageRange :: string
  sd_pages :: "page_data list"

datatype page_content =
    FrontCover string string string
  | StoryPage string string
  | BackCover
  | StaticPage

text \<open>
  A \<open>.page\<close> element. \<open>el_id\<close> is the identity of the element object: the timer closures
  of the page turns keep a reference to the element they found, not to its position.
\<close>

record page_el =
  el_id :: nat
  data_page :: int
  cls_turning :: bool
  cls_flipped :: bool
  cls_returning :: bool
  aria_hidden :: "bool option"
  tabindex :: "int option"
  content :: page_content

datatype book_callback = CommitPrev nat | CommitNext nat

text \<open>
  The module-level variables of the script and the part of the document it reads and
  writes. \<open>book_rotation\<close> is \<open>None\<close> when the document has no \<open>.book\<close> element; the
  \<open>.page\<close> elements are the children of the book, in document order. \<open>live_region\<close> and
  \<open>page_indicator\<close> are \<open>None\<close> when the optional element is absent, otherwise the two
  numbers of its text.
\<close>

record book_state =
  currentPage :: int
  totalPages :: int
  isAnimating :: bool
  book_rotation :: "int option"
  page_els :: "page_el list"
  live_region :: "(int \<times> int) option option"
  page_indicator :: "(int \<times> int) option option"
  next_el_id :: nat
  now :: nat
  timers :: "(nat \<times> book_callback) list"

subsection \<open>Document access\<close>

definition querySelector_page :: "int \<Rightarrow> page_el list \<Rightarrow> page_el option" where
  "querySelector_page n els = find (\<lambda>p. data_page p = n) els"

definition update_el :: "nat \<Rightarrow> (page_el \<Rightarrow> page_el) \<Rightarrow> page_el list \<Rightarrow> page_el list" where
  "update_el i f els = map (\<lambda>p. if el_id p = i then f p else p) els"

subsection \<open>updatePageState\<close>

definition adjustBookPosition :: "book_state \<Rightarrow> book_state outcome" where
  "adjustBookPosition s =
     (case book_rotation s of
        None \<Rightarrow> Threw TypeError s
      | Some r \<Rightarrow> Returned (s\<lparr>book_rotation := Some (min (currentPage s * 2) 10)\<rparr>))"

definition updateAccessibility :: "book_state \<Rightarrow> book_state" where
  "updateAccessibility s =
     (let els = map (\<lambda>(i, p). p\<lparr>aria_hidden := Some (int i < currentPage s),
                                   tabindex := Some (if int i = currentPage s then 0 else - 1)\<rparr>)
                    (enumerate 0 (page_els s))
      in s\<lparr>page_els := els,
            live_region := (case live_region s of
                              None \<Rightarrow> None
                            | Some t \<Rightarrow> Some (Some (currentPage s + 1, totalPages s)))\<rparr>)"

definition updatePageIndicators :: "book_state \<Rightarrow> book_state" where
  "updatePageIndicators s =
     s\<lparr>page_indicator := (case page_indicator s of
                            None \<Rightarrow> None
                          | Some t \<Rightarrow> Some (Some (currentPage s + 1, totalPages s)))\<rparr>"

definition updatePageState :: "book_state \<Rightarrow> book_state outcome" where
  "updatePageState s =
     (case adjustBookPosition s of
        Threw e s' \<Rightarrow> Threw e s'
      | Returned s' \<Rightarrow> Returned (updatePageIndicators (updateAccessibility s')))"

subsection \<open>Page turns\<close>

definition goToPreviousPage_book :: "book_state \<Rightarrow> book_state outcome" where
  "goToPreviousPage_book s =
     (if isAnimating s \<or> currentPage s \<le> 0 then Returned s
      else
        let s1 = s\<lparr>isAnimating := True, currentPage := currentPage s - 1\<rparr> in
        case querySelector_page (currentPage s1) (page_els s1) of
          None \<Rightarrow> Threw TypeError s1
        | Some pageToUnflip \<Rightarrow>
            Returned (s1\<lparr>page_els := update_el (el_id pageToUnflip)
                                         (\<lambda>p. p\<lparr>cls_returning := True\<rparr>) (page_els s1),
                         timers := enqueue (now s1 + 600, CommitPrev (el_id pageToUnflip))
                                     (timers s1)\<rparr>))"

definition goToNextPage_book :: "book_state \<Rightarrow> book_state outcome" where
  "goToNextPage_book s =
     (if isAnimating s \<or> currentPage s \<ge> totalPages s - 1 then Returned s
      else
        let s1 = s\<lparr>isAnimating := True\<rparr> in
        case querySelector_page (currentPage s1) (page_els s1) of
          None \<Rightarrow> Threw TypeError s1
        | Some pageToFlip \<Rightarrow>
            Returned (s1\<lparr>page_els := update_el (el_id pageToFlip)
                                         (\<lambda>p. p\<lparr>cls_turning := True\<rparr>) (page_els s1),
                         timers := enqueue (now s1 + 600, CommitNext (el_id pageToFlip))
                                     (timers s1)\<rparr>))"

text \<open>The bodies of the two \<open>setTimeout\<close> closures.\<close>

fun run_book_callback :: "book_callback \<Rightarrow> book_state \<Rightarrow> book_state outcome" where
  "run_book_callback (CommitPrev i) s =
     updatePageState
       (s\<lparr>page_els := update_el i (\<lambda>p. p\<lparr>cls_flipped := False, cls_returning := False\<rparr>)
                         (page_els s),
          isAnimating := False\<rparr>)"
| "run_book_callback (CommitNext i) s =
     updatePageState
       (s\<lparr>page_els := update_el i (\<lambda>p. p\<lparr>cls_flipped := True, cls_turning := False\<rparr>)
                         (page_els s),
          currentPage := currentPage s + 1,
          isAnimating := False\<rparr>)"

subsection \<open>Keyboard and swipe\<close>

datatype key = ArrowLeft | ArrowRight | OtherKey

definition handleKeyDown :: "key \<Rightarrow> book_state \<Rightarrow> book_state outcome" where
  "handleKeyDown k s =
     (if isAnimating s then Returned s
      else case k of
        ArrowLeft \<Rightarrow> goToPreviousPage_book s
      | ArrowRight \<Rightarrow> goToNextPage_book s
      | OtherKey \<Rightarrow> Returned s)"

definition minSwipeDistance :: int where
  "minSwipeDistance = 50"

definition handleSwipe_book :: "int \<Rightarrow> int \<Rightarrow> book_state \<Rightarrow> book_state outcome" where
  "handleSwipe_book touchStartX touchEndX s =
     (let swipeDistance = touchEndX - touchStartX in
      if \<bar>swipeDistance\<bar> > minSwipeDistance then
        (if swipeDistance > 0 then goToPreviousPage_book s else goToNextPage_book s)
      else Returned s)"

subsection \<open>Loading a story\<close>

definition new_page :: "nat \<Rightarrow> int \<Rightarrow> page_content \<Rightarrow> page_el" where
  "new_page i n c =
     \<lparr>el_id = i, data_page = n, cls_turning = False, cls_flipped = False,
      cls_returning = False, aria_hidden = None, tabindex = None, content = c\<rparr>"

text \<open>
  \<open>populateBook\<close> builds the front cover from \<open>pages[0].image\<close> before it appends anything:
  on an empty \<open>pages\<close> array \<open>pages[0]\<close> is \<open>undefined\<close> and the property read throws. The
  first \<open>appendChild\<close> throws when there is no \<open>.book\<close> element.
\<close>

definition populateBook :: "story_data \<Rightarrow> book_state \<Rightarrow> book_state outcome" where
  "populateBook storyData s =
     (case sd_pages storyData of
        [] \<Rightarrow> Threw TypeError s
      | first # rest \<Rightarrow>
          (case book_rotation s of
             None \<Rightarrow> Threw TypeError s
           | Some r \<Rightarrow>
               let pages = sd_pages storyData;
                   n = length pages;
                   i0 = next_el_id s;
                   frontCover = new_page i0 0
                     (FrontCover (sd_title storyData) (pd_image first) (sd_ageRange storyData));
                   storyPages = map (\<lambda>(i, p). new_page (i0 + 1 + i) (int i + 1)
                                        (StoryPage (pd_text p) (pd_image p)))
                                    (enumerate 0 pages);
                   backCover = new_page (i0 + 1 + n) (int n + 1) BackCover
               in Returned (s\<lparr>page_els := page_els s @ [frontCover] @ storyPages @ [backCover],
                               next_el_id := i0 + n + 2\<rparr>)))"

definition initializeBook :: "book_state \<Rightarrow> book_state outcome" where
  "initializeBook s = updatePageState (s\<lparr>totalPages := int (length (page_els s))\<rparr>)"

text \<open>
  The success path of the form's submit handler, from the arrival of the response on:
  \<open>populateBook(data); currentPage = 0; initializeBook()\<close> inside \<open>try\<close>. The \<open>catch\<close>
  block reports the error, so the handler itself never throws.
\<close>

definition storyGenerated :: "story_data \<Rightarrow> book_state \<Rightarrow> book_state" where
  "storyGenerated storyData s =
     (case populateBook storyData s of
        Threw e s' \<Rightarrow> s'
      | Returned s' \<Rightarrow> state_of (initializeBook (s'\<lparr>currentPage := 0\<rparr>)))"

text \<open>The click handler of the back cover's button: \<open>book.innerHTML = ''\<close>.\<close>

definition createNewStory :: "book_state \<Rightarrow> book_state" where
  "createNewStory s = s\<lparr>page_els := []\<rparr>"

subsection \<open>The event loop\<close>

text \<open>
  Time passes between events; a timer fires when it is the next one in the queue and its
  due time has come. An exception thrown by a handler is reported by the browser and the
  next event finds the state the handler left behind.
\<close>

definition fire_book :: "book_state \<Rightarrow> book_state outcome option" where
  "fire_book s =
     (case timers s of
        [] \<Rightarrow> None
      | (due, cb) # rest \<Rightarrow>
          if due \<le> now s then Some (run_book_callback cb (s\<lparr>timers := rest\<rparr>)) else None)"

datatype book_event =
    ClickPrev | ClickNext | KeyDown key | Swipe int int
  | StoryGenerated story_data | CreateNewStory
  | Elapse nat | TimerFires

fun book_step :: "book_event \<Rightarrow> book_state \<Rightarrow> book_state" where
  "book_step ClickPrev s = state_of (goToPreviousPage_book s)"
| "book_step ClickNext s = state_of (goToNextPage_book s)"
| "book_step (KeyDown k) s = state_of (handleKeyDown k s)"
| "book_step (Swipe x0 x1) s = state_of (handleSwipe_book x0 x1 s)"
| "book_step (StoryGenerated d) s = storyGenerated d s"
| "book_step CreateNewStory s = createNewStory s"
| "book_step (Elapse d) s = s\<lparr>now := now s + d\<rparr>"
| "book_step TimerFires s = (case fire_book s of None \<Rightarrow> s | Some r \<Rightarrow> state_of r)"

definition book_run :: "book_event list \<Rightarrow> book_state \<Rightarrow> book_state" where
  "book_run es s = foldl (\<lambda>s e. book_step e s) s es"

text \<open>The script's state when the document is ready, before \<open>initializeBook\<close>.\<close>

definition book_init :: "page_el list \<Rightarrow> book_state" where
  "book_init els =
     \<lparr>currentPage = 0, totalPages = 0, isAnimating = False, book_rotation = Some 0,
      page_els = els, live_region = None, page_indicator = None,
      next_el_id = Suc (fold (\<lambda>p m. max (el_id p) m) els 0), now = 0, timers = []\<rparr>"

section \<open>The story viewer (part 001)\<close>

subsection \<open>Data\<close>

record story_page =
  index :: int
  page_text :: string
  image_url :: string

record story =
  title :: string
  age_range :: string
  pages :: "story_page list"

text \<open>
  What an utterance reads: the introduction built from title and age range on the cover,
  or the text of a story page. The introduction is never the empty string.
\<close>

datatype spoken = Introduction string string | PageText string

record utterance =
  u_spoken :: spoken
  u_enhanced :: bool

record view_page =
  vp_id :: int
  vp_flipped :: bool
  vp_zIndex :: int
  vp_text :: string
  vp_image :: string

text \<open>
  The closures given to \<open>setTimeout\<close>: \<open>hideError()\<close>, the deferred increment of
  \<open>goToNextPage\<close>, \<open>readCurrentPage()\<close>, and the two auto-advance calls \<open>nextPage()\<close>
  (part 001) and \<open>window.nextPage()\<close> (part 003).
\<close>

datatype viewer_callback =
  HideError | IncrementPage | ReadCurrentPage | CallNextPage | CallWindowNextPage

text \<open>
  The module-level variables (\<open>currentStory\<close>, \<open>currentPageIndex\<close>, \<open>isReadingAloud\<close>,
  \<open>speechSynthesis\<close>) and the elements the handlers touch. \<open>speechSynthesis\<close> is \<open>None\<close> in
  a browser without speech, otherwise the synthesizer's queue of utterances: \<open>speak\<close>
  appends, \<open>cancel\<close> empties it, the head is the utterance being spoken. \<open>coverPage\<close> is
  the \<open>flipped\<close> class of \<open>#cover-page\<close>, \<open>coverImage\<close> the background of \<open>#cover-image\<close>,
  \<open>autoTurnPages\<close> the checkbox \<open>#auto-turn-pages\<close>; each is \<open>None\<close> when the element is
  absent. \<open>pageEls\<close> are the \<open>.page:not(.cover-page)\<close> elements, with the number of
  their id \<open>page-N\<close>. \<open>enhancedNarration\<close> says that the page has loaded the script of
  part 003, which replaces \<open>window.readCurrentPage\<close>; \<open>enhancedExpression\<close> is the
  setting of that name in the \<open>voiceSettings\<close> entry of local storage.
\<close>

record viewer_state =
  currentStory :: "story option"
  currentPageIndex :: int
  isReadingAloud :: bool
  speechSynthesis :: "utterance list option"
  coverPage :: "bool option"
  coverImage :: "string option option"
  pageEls :: "view_page list"
  traditionalBook_hidden :: bool
  storyTitle :: string
  ageRange :: string
  prevPageBtn_disabled :: bool
  nextPageBtn_disabled :: bool
  currentPageIndicator :: int
  totalPagesIndicator :: int
  errorText :: string
  errorMessage_hidden :: bool
  loadingIndicator_hidden :: bool
  generateBtn_disabled :: bool
  storyForm_hidden :: bool
  storyViewer_hidden :: bool
  readAloudText :: string
  toggleReadAloudBtn_active :: bool
  readingIndicator_active :: bool
  autoTurnPages :: "bool option"
  enhancedNarration :: bool
  enhancedExpression :: "bool option"
  vnow :: nat
  vtimers :: "(nat \<times> viewer_callback) list"

subsection \<open>Helpers\<close>

text \<open>JavaScript array indexing: \<open>undefined\<close> outside the array.\<close>

definition js_index :: "'a list \<Rightarrow> int \<Rightarrow> 'a option" where
  "js_index xs i = (if 0 \<le> i \<and> nat i < length xs then Some (xs ! nat i) else None)"

text \<open>\<open>a || b\<close> on strings that may be \<open>undefined\<close>: the empty string is falsy.\<close>

definition js_or :: "string option \<Rightarrow> string \<Rightarrow> string" where
  "js_or a b = (case a of None \<Rightarrow> b | Some x \<Rightarrow> if x = [] then b else x)"

text \<open>
  \<open>getElementById('page-N')\<close> followed by a change of the \<open>flipped\<close> class: the first
  element with that id, \<open>None\<close> when there is none.
\<close>

fun set_flipped :: "int \<Rightarrow> bool \<Rightarrow> view_page list \<Rightarrow> view_page list option" where
  "set_flipped n b [] = None"
| "set_flipped n b (p # ps) =
     (if vp_id p = n then Some (p\<lparr>vp_flipped := b\<rparr> # ps)
      else map_option ((#) p) (set_flipped n b ps))"

definition showLoading :: "viewer_state \<Rightarrow> viewer_state" where
  "showLoading s = s\<lparr>loadingIndicator_hidden := False, generateBtn_disabled := True\<rparr>"

definition hideLoading :: "viewer_state \<Rightarrow> viewer_state" where
  "hideLoading s = s\<lparr>loadingIndicator_hidden := True, generateBtn_disabled := False\<rparr>"

definition showError :: "string \<Rightarrow> viewer_state \<Rightarrow> viewer_state" where
  "showError message s =
     s\<lparr>errorText := message, errorMessage_hidden := False,
       vtimers := enqueue (vnow s + 8000, HideError) (vtimers s)\<rparr>"

definition hideError :: "viewer_state \<Rightarrow> viewer_state" where
  "hideError s = s\<lparr>errorMessage_hidden := True\<rparr>"

definition showStoryViewer :: "viewer_state \<Rightarrow> viewer_state" where
  "showStoryViewer s = s\<lparr>storyForm_hidden := True, storyViewer_hidden := False\<rparr>"

subsection \<open>Narration\<close>

text \<open>\<open>speechSynthesis.cancel()\<close> removes every utterance from the queue.\<close>

definition cancel :: "utterance list option \<Rightarrow> utterance list option" where
  "cancel synth = (case synth of None \<Rightarrow> None | Some q \<Rightarrow> Some [])"

definition stopReading :: "viewer_state \<Rightarrow> viewer_state" where
  "stopReading s =
     s\<lparr>isReadingAloud := False, readAloudText := ''Read To Me!'',
       toggleReadAloudBtn_active := False, readingIndicator_active := False,
       speechSynthesis := cancel (speechSynthesis s)\<rparr>"

text \<open>
  \<open>startReading\<close>; the start sound and the creation of the indicator element do not touch
  the modelled state.
\<close>

definition startReading :: "viewer_state \<Rightarrow> viewer_state" where
  "startReading s =
     s\<lparr>isReadingAloud := True, readAloudText := ''Stop Reading'',
       toggleReadAloudBtn_active := True, readingIndicator_active := True,
       vtimers := enqueue (vnow s + 500, ReadCurrentPage) (vtimers s)\<rparr>"

definition toggleReadAloud :: "viewer_state \<Rightarrow> viewer_state" where
  "toggleReadAloud s = (if isReadingAloud s then stopReading s else startReading s)"

definition SpeechSynthesisUtterance :: "spoken \<Rightarrow> utterance" where
  "SpeechSynthesisUtterance textToRead = \<lparr>u_spoken = textToRead, u_enhanced = False\<rparr>"

definition speak :: "utterance \<Rightarrow> viewer_state \<Rightarrow> viewer_state" where
  "speak u s =
     s\<lparr>speechSynthesis := (case speechSynthesis s of None \<Rightarrow> None | Some q \<Rightarrow> Some (q @ [u]))\<rparr>"

text \<open>
  \<open>readCurrentPage\<close>. The choice of the voice, rate and pitch does not touch the modelled
  state. The text is read from \<open>currentStory\<close>, which is \<open>null\<close> before the first story
  and after \<open>resetToForm\<close>.
\<close>

definition readCurrentPage :: "viewer_state \<Rightarrow> viewer_state outcome" where
  "readCurrentPage s =
     (case speechSynthesis s of
        None \<Rightarrow> Returned s
      | Some q \<Rightarrow>
          (let s1 = s\<lparr>speechSynthesis := cancel (speechSynthesis s)\<rparr> in
           (case currentStory s1 of
              None \<Rightarrow> Threw TypeError s1
            | Some st \<Rightarrow>
                if currentPageIndex s1 = 0 then
                  Returned (speak (SpeechSynthesisUtterance
                                     (Introduction (title st) (age_range st))) s1)
                else
                  (case js_index (pages st) (currentPageIndex s1 - 1) of
                     None \<Rightarrow> Returned s1
                   | Some p \<Rightarrow>
                       if page_text p = [] then Returned s1
                       else Returned (speak (SpeechSynthesisUtterance
                                               (PageText (page_text p))) s1)))))"

text \<open>The \<open>onend\<close> handler that \<open>readCurrentPage\<close> gives every utterance.\<close>

definition utterance_onend :: "viewer_state \<Rightarrow> viewer_state" where
  "utterance_onend s =
     (if isReadingAloud s \<and> autoTurnPages s = Some True
      then s\<lparr>vtimers := enqueue (vnow s + 1000, CallNextPage) (vtimers s)\<rparr>
      else s)"

subsection \<open>Navigation\<close>

definition updateNavigationButtons :: "viewer_state \<Rightarrow> viewer_state outcome" where
  "updateNavigationButtons s =
     (let s1 = s\<lparr>prevPageBtn_disabled := (currentPageIndex s = 0)\<rparr> in
      case currentStory s1 of
        None \<Rightarrow> Threw TypeError s1
      | Some st \<Rightarrow>
          Returned (s1\<lparr>nextPageBtn_disabled := (currentPageIndex s1 = int (length (pages st))),
                       currentPageIndicator := currentPageIndex s1 + 1\<rparr>))"

definition goToPreviousPage :: "viewer_state \<Rightarrow> viewer_state outcome" where
  "goToPreviousPage s =
     (if currentPageIndex s > 0 then
        let s1 = (if isReadingAloud s then stopReading s else s);
            s2 = s1\<lparr>currentPageIndex := currentPageIndex s1 - 1\<rparr>;
            s3 = (if currentPageIndex s2 = 0
                  then (case coverPage s2 of
                          None \<Rightarrow> s2
                        | Some f \<Rightarrow> s2\<lparr>coverPage := Some False\<rparr>)
                  else (case set_flipped (currentPageIndex s2) False (pageEls s2) of
                          None \<Rightarrow> s2
                        | Some els \<Rightarrow> s2\<lparr>pageEls := els\<rparr>))
        in case updateNavigationButtons s3 of
             Threw e s4 \<Rightarrow> Threw e s4
           | Returned s4 \<Rightarrow>
               Returned (if isReadingAloud s4
                         then s4\<lparr>vtimers := enqueue (vnow s4 + 500, ReadCurrentPage) (vtimers s4)\<rparr>
                         else s4)
      else Returned s)"

text \<open>
  \<open>goToNextPage\<close>. The guard reads \<open>currentStory.pages\<close> and throws when no story is
  loaded. With the page element found, the increment is left to a 50 ms timer; without
  it, the fallback branch increments at once.
\<close>

definition goToNextPage :: "viewer_state \<Rightarrow> viewer_state outcome" where
  "goToNextPage s =
     (case currentStory s of
        None \<Rightarrow> Threw TypeError s
      | Some st \<Rightarrow>
          if currentPageIndex s < int (length (pages st)) then
            let s1 = (if isReadingAloud s then stopReading s else s);
                pageToFlip =
                  (if currentPageIndex s1 = 0
                   then (case coverPage s1 of
                           None \<Rightarrow> None
                         | Some f \<Rightarrow> Some (s1\<lparr>coverPage := Some True\<rparr>))
                   else (case set_flipped (currentPageIndex s1) True (pageEls s1) of
                           None \<Rightarrow> None
                         | Some els \<Rightarrow> Some (s1\<lparr>pageEls := els\<rparr>)))
            in case pageToFlip of
                 Some s2 \<Rightarrow>
                   Returned (s2\<lparr>vtimers := enqueue (vnow s2 + 50, IncrementPage) (vtimers s2)\<rparr>)
               | None \<Rightarrow>
                   updateNavigationButtons (s1\<lparr>currentPageIndex := currentPageIndex s1 + 1\<rparr>)
          else Returned s)"

text \<open>The closure of the 50 ms timer.\<close>

definition incrementPage :: "viewer_state \<Rightarrow> viewer_state outcome" where
  "incrementPage s =
     (case updateNavigationButtons (s\<lparr>currentPageIndex := currentPageIndex s + 1\<rparr>) of
        Threw e s1 \<Rightarrow> Threw e s1
      | Returned s1 \<Rightarrow>
          Returned (if isReadingAloud s1
                    then s1\<lparr>vtimers := enqueue (vnow s1 + 300, ReadCurrentPage) (vtimers s1)\<rparr>
                    else s1))"

text \<open>
  \<open>nextPage()\<close>, which the auto-advance timer of part 001 calls. No script declares a
  global of this name: the viewer's function is \<open>goToNextPage\<close>, and the flipbook widget
  exposes its method as \<open>window.flipbookAPI.nextPage\<close> only. Evaluating the name raises a
  \<open>ReferenceError\<close>. For the same reason \<open>window.nextPage\<close> is \<open>undefined\<close>, and the call
  \<open>window.nextPage()\<close> of part 003 raises a \<open>TypeError\<close>.
\<close>

definition nextPage :: "viewer_state \<Rightarrow> viewer_state outcome" where
  "nextPage s = Threw ReferenceError s"

definition window_nextPage :: "viewer_state \<Rightarrow> viewer_state outcome" where
  "window_nextPage s = Threw TypeError s"

definition handleSwipe :: "int \<Rightarrow> int \<Rightarrow> viewer_state \<Rightarrow> viewer_state outcome" where
  "handleSwipe touchStartX touchEndX s =
     (let swipeThreshold = 50 in
      if touchEndX < touchStartX - swipeThreshold then goToNextPage s
      else if touchEndX > touchStartX + swipeThreshold then goToPreviousPage s
      else Returned s)"

definition resetToForm :: "viewer_state \<Rightarrow> viewer_state" where
  "resetToForm s =
     (let s1 = (if isReadingAloud s then stopReading s else s)
      in s1\<lparr>currentStory := None, currentPageIndex := 0,
             storyForm_hidden := False, storyViewer_hidden := True\<rparr>)"

subsection \<open>Generating and displaying a story\<close>

definition createPageElement :: "story_page \<Rightarrow> view_page" where
  "createPageElement page =
     \<lparr>vp_id = index page, vp_flipped = False, vp_zIndex = 0,
      vp_text = page_text page, vp_image = image_url page\<rparr>"

text \<open>
  \<open>displayStory\<close>. The cover image is set from \<open>story.pages[0]\<close> only inside the check
  \<open>story.pages.length > 0\<close>. The \<open>storyGenerated\<close> event it dispatches at the end reaches
  the flipbook widget, which keeps its own state (below); an exception in a listener does
  not come back through \<open>dispatchEvent\<close>.
\<close>

definition displayStory :: "story \<Rightarrow> viewer_state \<Rightarrow> viewer_state outcome" where
  "displayStory st s =
     (let s1 = s\<lparr>currentPageIndex := 0, storyTitle := title st, ageRange := age_range st\<rparr>;
          s2 = (case pages st of
                  [] \<Rightarrow> s1
                | first # rest \<Rightarrow>
                    (case coverImage s1 of
                       None \<Rightarrow> s1
                     | Some bg \<Rightarrow> s1\<lparr>coverImage := Some (Some (image_url first))\<rparr>))
      in if \<not> traditionalBook_hidden s2 then
           updateNavigationButtons
             (s2\<lparr>pageEls := map (\<lambda>(i, page). (createPageElement page)
                                     \<lparr>vp_zIndex := int (length (pages st)) - int i\<rparr>)
                                (enumerate 0 (pages st)),
                 totalPagesIndicator := int (length (pages st)) + 1,
                 currentPageIndicator := 1\<rparr>)
         else Returned s2)"

text \<open>
  How the \<open>fetch\<close> of \<open>/generate\<close> settles: the promise rejects (network error), the
  response is not ok (its body either fails to parse or is an object whose \<open>detail\<close> may be
  missing), or the response is ok (its body either fails to parse or is a story).
\<close>

datatype error_body = NoJson string | ErrorData "string option"

datatype fetch_outcome = Rejected string | NotOk error_body | Ok200 story | Ok200NoJson string

text \<open>
  \<open>handleGenerateStory\<close> up to the \<open>await fetch\<close>: \<open>prompt\<close> is the trimmed input; the
  result says whether the request was sent.
\<close>

definition handleGenerateStory_request :: "string \<Rightarrow> viewer_state \<Rightarrow> viewer_state \<times> bool" where
  "handleGenerateStory_request prompt s =
     (if prompt = [] then (showError ''Please enter a story prompt'' s, False)
      else (showLoading s, True))"

definition catch_generate :: "string \<Rightarrow> viewer_state \<Rightarrow> viewer_state" where
  "catch_generate message s =
     showError (js_or (Some message) ''An error occurred while generating your story'') s"

text \<open>\<open>handleGenerateStory\<close> from the settling of the \<open>fetch\<close> on, with \<open>catch\<close> and \<open>finally\<close>.\<close>

definition handleGenerateStory_settled :: "fetch_outcome \<Rightarrow> viewer_state \<Rightarrow> viewer_state" where
  "handleGenerateStory_settled r s =
     hideLoading
       (case r of
          Rejected m \<Rightarrow> catch_generate m s
        | NotOk (NoJson m) \<Rightarrow> catch_generate m s
        | NotOk (ErrorData detail) \<Rightarrow> catch_generate (js_or detail ''Failed to generate story'') s
        | Ok200NoJson m \<Rightarrow> catch_generate m s
        | Ok200 storyData \<Rightarrow>
            (case displayStory storyData (s\<lparr>currentStory := Some storyData\<rparr>) of
               Threw e s' \<Rightarrow> catch_generate ''TypeError'' s'
             | Returned s' \<Rightarrow> showStoryViewer s'))"

section \<open>The enhanced narration (part 003)\<close>

text \<open>
  The script replaces \<open>window.readCurrentPage\<close>, which exists because part 001 declares
  \<open>readCurrentPage\<close> as a function; from then on every call of \<open>readCurrentPage()\<close> runs
  the copy. The copy reads the page index, the story and the narration flag as
  \<open>window.currentPageIndex\<close>, \<open>window.currentStory\<close> and \<open>window.isReadingAloud\<close>;
  \<open>w\<close> holds what these reads return, \<open>None\<close> for \<open>undefined\<close>. The synthesizer is the
  one of the viewer.
\<close>

record window_props =
  w_currentPageIndex :: "int option"
  w_currentStory :: "story option"
  w_isReadingAloud :: "bool option"

text \<open>
  Part 001 declares \<open>currentPageIndex\<close>, \<open>currentStory\<close> and \<open>isReadingAloud\<close> with
  \<open>let\<close> at the top level of its script. Such a declaration creates no property of
  \<open>window\<close>, and no script assigns one of these names on \<open>window\<close>: in the page all
  three reads return \<open>undefined\<close>.
\<close>

definition page_window :: window_props where
  "page_window =
     \<lparr>w_currentPageIndex = None, w_currentStory = None, w_isReadingAloud = None\<rparr>"

text \<open>
  The copy of \<open>readCurrentPage\<close>; \<open>setting\<close> is \<open>settings.enhancedExpression\<close>, and the
  text is passed through \<open>enhanceStoryText\<close> unless the setting is \<open>false\<close>. With
  \<open>window.currentStory\<close> undefined, both branches that compute the text throw on
  \<open>window.currentStory.title\<close> or \<open>window.currentStory.pages\<close>, after \<open>cancel()\<close>.
\<close>

definition readCurrentPage_enhanced ::
  "window_props \<Rightarrow> bool option \<Rightarrow> viewer_state \<Rightarrow> viewer_state outcome" where
  "readCurrentPage_enhanced w setting s =
     (case speechSynthesis s of
        None \<Rightarrow> Returned s
      | Some q \<Rightarrow>
          (let s1 = s\<lparr>speechSynthesis := cancel (speechSynthesis s)\<rparr>;
               enhance = (\<lambda>u. u\<lparr>u_enhanced := (setting \<noteq> Some False)\<rparr>)
           in (case w_currentStory w of
                 None \<Rightarrow> Threw TypeError s1
               | Some st \<Rightarrow>
                   if w_currentPageIndex w = Some 0 then
                     Returned (speak (enhance (SpeechSynthesisUtterance
                                        (Introduction (title st) (age_range st)))) s1)
                   else
                     (case w_currentPageIndex w of
                        None \<Rightarrow> Returned s1
                      | Some i \<Rightarrow>
                          (case js_index (pages st) (i - 1) of
                             None \<Rightarrow> Returned s1
                           | Some p \<Rightarrow>
                               if page_text p = [] then Returned s1
                               else Returned (speak (enhance (SpeechSynthesisUtterance
                                                       (PageText (page_text p)))) s1))))))"

definition utterance_onend_enhanced :: "window_props \<Rightarrow> viewer_state \<Rightarrow> viewer_state" where
  "utterance_onend_enhanced w s =
     (if w_isReadingAloud w = Some True \<and> autoTurnPages s = Some True
      then s\<lparr>vtimers := enqueue (vnow s + 1000, CallWindowNextPage) (vtimers s)\<rparr>
      else s)"

section \<open>The event loop of the viewer\<close>

text \<open>
  A timer that calls \<open>readCurrentPage()\<close> runs the function of part 001, or its
  replacement when the page has loaded part 003.
\<close>

fun run_viewer_callback :: "viewer_callback \<Rightarrow> viewer_state \<Rightarrow> viewer_state outcome" where
  "run_viewer_callback HideError s = Returned (hideError s)"
| "run_viewer_callback IncrementPage s = incrementPage s"
| "run_viewer_callback ReadCurrentPage s =
     (if enhancedNarration s then readCurrentPage_enhanced page_window (enhancedExpression s) s
      else readCurrentPage s)"
| "run_viewer_callback CallNextPage s = nextPage s"
| "run_viewer_callback CallWindowNextPage s = window_nextPage s"

definition fire_viewer :: "viewer_state \<Rightarrow> viewer_state outcome option" where
  "fire_viewer s =
     (case vtimers s of
        [] \<Rightarrow> None
      | (due, cb) # rest \<Rightarrow>
          if due \<le> vnow s then Some (run_viewer_callback cb (s\<lparr>vtimers := rest\<rparr>)) else None)"

text \<open>
  \<open>UtteranceEnds\<close>: the synthesizer finishes the utterance at the head of its queue and
  calls its \<open>onend\<close>. \<open>CancelledUtteranceEnds\<close>: the browser delivers the end event of an
  utterance that \<open>cancel()\<close> has removed from the queue. \<open>VoiceSelected\<close>: the change
  handler of the voice selector with an available voice. Every utterance that reaches the
  queue was made by the \<open>readCurrentPage\<close> of part 001 and carries its \<open>onend\<close>: the
  replacement of part 003, run on \<open>page_window\<close>, throws before it makes one.
\<close>

datatype viewer_event =
    VClickPrev | VClickNext | VSwipe int int
  | ToggleReadAloud | VoiceSelected | BackToForm | CloseError
  | GenerateClick string | FetchSettled fetch_outcome
  | VElapse nat | VTimerFires
  | UtteranceEnds | CancelledUtteranceEnds

fun viewer_step :: "viewer_event \<Rightarrow> viewer_state \<Rightarrow> viewer_state" where
  "viewer_step VClickPrev s = state_of (goToPreviousPage s)"
| "viewer_step VClickNext s = state_of (goToNextPage s)"
| "viewer_step (VSwipe x0 x1) s = state_of (handleSwipe x0 x1 s)"
| "viewer_step ToggleReadAloud s = toggleReadAloud s"
| "viewer_step VoiceSelected s = (if isReadingAloud s then startReading (stopReading s) else s)"
| "viewer_step BackToForm s = resetToForm s"
| "viewer_step CloseError s = hideError s"
| "viewer_step (GenerateClick prompt) s = fst (handleGenerateStory_request prompt s)"
| "viewer_step (FetchSettled r) s = handleGenerateStory_settled r s"
| "viewer_step (VElapse d) s = s\<lparr>vnow := vnow s + d\<rparr>"
| "viewer_step VTimerFires s = (case fire_viewer s of None \<Rightarrow> s | Some r \<Rightarrow> state_of r)"
| "viewer_step UtteranceEnds s =
     (case speechSynthesis s of
        Some (u # q) \<Rightarrow> utterance_onend (s\<lparr>speechSynthesis := Some q\<rparr>)
      | _ \<Rightarrow> s)"
| "viewer_step CancelledUtteranceEnds s = utterance_onend s"

definition viewer_run :: "viewer_event list \<Rightarrow> viewer_state \<Rightarrow> viewer_state" where
  "viewer_run es s = foldl (\<lambda>s e. viewer_step e s) s es"

text \<open>
  The viewer when the document is ready: no story, the form shown, nothing being read.
  The parameters are what the page provides: the \<open>#cover-page\<close> element, the state of
  the \<open>#auto-turn-pages\<close> checkbox, and whether the script of part 003 is loaded. The
  browser has speech synthesis: without it \<open>initialize\<close> throws in
  \<open>initSpeechSynthesisVoices\<close>, before the listeners of the navigation, narration and
  error buttons are attached.
\<close>

definition viewer_init :: "bool \<Rightarrow> bool option \<Rightarrow> bool \<Rightarrow> viewer_state" where
  "viewer_init cover auto enhanced =
     \<lparr>currentStory = None, currentPageIndex = 0, isReadingAloud = False,
      speechSynthesis = Some [],
      coverPage = (if cover then Some False else None),
      coverImage = (if cover then Some None else None),
      pageEls = [], traditionalBook_hidden = False,
      storyTitle = [], ageRange = [],
      prevPageBtn_disabled = False, nextPageBtn_disabled = False,
      currentPageIndicator = 1, totalPagesIndicator = 1,
      errorText = [], errorMessage_hidden = True,
      loadingIndicator_hidden = True, generateBtn_disabled = False,
      storyForm_hidden = False, storyViewer_hidden = True,
      readAloudText = ''Read To Me!'', toggleReadAloudBtn_active = False,
      readingIndicator_active = False, autoTurnPages = auto,
      enhancedNarration = enhanced, enhancedExpression = None,
      vnow = 0, vtimers = []\<rparr>"

section \<open>The flipbook widget (part 002)\<close>

datatype fb_type = TCover | TPage | TEnd

datatype fb_heading = Heading string | Chapter nat | TheEnd

record fb_page =
  fb_title :: fb_heading
  fb_text :: string
  fb_image :: "string option"
  pageNumber :: nat
  fb_type :: "fb_type option"

text \<open>
  The component's state; \<open>flipbook_current\<close> is the page the mounted widget shows, \<open>None\<close>
  while the ref is empty.
\<close>

record flipbook_state =
  fb_pages :: "fb_page list"
  fb_currentPage :: nat
  fb_totalPages :: nat
  flipbook_current :: "nat option"

text \<open>
  \<open>addStoryPages\<close> pushes the cover first, reading \<open>story.pages[0].image_url\<close> without a
  check: on an empty \<open>pages\<close> array the read throws before the state is set.
\<close>

definition addStoryPages :: "story \<Rightarrow> flipbook_state \<Rightarrow> flipbook_state outcome" where
  "addStoryPages st s =
     (case pages st of
        [] \<Rightarrow> Threw TypeError s
      | first # rest \<Rightarrow>
          let cover = \<lparr>fb_title = Heading (title st),
                       fb_text = ''A magical story for ages '' @ age_range st,
                       fb_image = Some (image_url first), pageNumber = 1,
                       fb_type = Some TCover\<rparr>;
              chapters = map (\<lambda>(i, page). \<lparr>fb_title = Chapter (i + 1),
                                             fb_text = page_text page,
                                             fb_image = Some (image_url page),
                                             pageNumber = i + 2, fb_type = Some TPage\<rparr>)
                             (enumerate 0 (pages st));
              storyPages = cover # chapters;
              endPage = \<lparr>fb_title = TheEnd,
                         fb_text = ''Thank you for reading this magical story! Would you like to create another wonderful tale?'',
                         fb_image = None, pageNumber = length storyPages + 1,
                         fb_type = Some TEnd\<rparr>;
              allPages = storyPages @ [endPage]
          in Returned (s\<lparr>fb_pages := allPages, fb_totalPages := length allPages,
                          fb_currentPage := 0,
                          flipbook_current := (case flipbook_current s of
                                                 None \<Rightarrow> None
                                               | Some c \<Rightarrow> Some 0)\<rparr>))"

section \<open>Auxiliary definitions and example inputs\<close>

text \<open>\<open>n\<close> calls of a handler in a row, stopping at the first one that throws.\<close>

fun repeat_call :: "nat \<Rightarrow> ('s \<Rightarrow> 's outcome) \<Rightarrow> 's \<Rightarrow> 's outcome" where
  "repeat_call 0 f s = Returned s"
| "repeat_call (Suc n) f s =
     (case f s of Threw e s' \<Rightarrow> Threw e s' | Returned s' \<Rightarrow> repeat_call n f s')"

text \<open>The synthesizer holds at most one utterance.\<close>

definition at_most_one_utterance :: "viewer_state \<Rightarrow> bool" where
  "at_most_one_utterance s =
     (case speechSynthesis s of None \<Rightarrow> True | Some q \<Rightarrow> length q \<le> 1)"

text \<open>
  The invariant of the DOM book: at most one commit timer is pending, and only while
  \<open>isAnimating\<close> is set; the page index, together with a pending increment, stays in
  range.
\<close>

definition pending_next :: "(nat \<times> book_callback) list \<Rightarrow> int" where
  "pending_next ts =
     int (length (filter (\<lambda>t. case snd t of CommitNext i \<Rightarrow> True | CommitPrev i \<Rightarrow> False) ts))"

definition book_inv :: "book_state \<Rightarrow> bool" where
  "book_inv s =
     ((timers s = [] \<or> (isAnimating s \<and> length (timers s) = 1))
      \<and> 0 \<le> currentPage s
      \<and> currentPage s + pending_next (timers s) \<le> totalPages s - 1)"

text \<open>A story of two pages, and the viewer after the story has arrived.\<close>

definition demo_page1 :: story_page where
  "demo_page1 = \<lparr>index = 1, page_text = ''Once upon a time.'', image_url = ''/img/1.png''\<rparr>"

definition demo_page2 :: story_page where
  "demo_page2 = \<lparr>index = 2, page_text = ''The end.'', image_url = ''/img/2.png''\<rparr>"

definition demo_story :: story where
  "demo_story =
     \<lparr>title = ''The Brave Dragon'', age_range = ''4-8'', pages = [demo_page1, demo_page2]\<rparr>"

definition demo_viewer :: viewer_state where
  "demo_viewer = viewer_run [FetchSettled (Ok200 demo_story)] (viewer_init True (Some True) False)"

definition demo_viewer_page1 :: viewer_state where
  "demo_viewer_page1 = viewer_run [VClickNext, VElapse 50, VTimerFires] demo_viewer"

definition demo_viewer_last :: viewer_state where
  "demo_viewer_last = viewer_run [VClickNext, VElapse 50, VTimerFires] demo_viewer_page1"

text \<open>The viewer reading the cover, and reading the first page.\<close>

definition demo_viewer_reading :: viewer_state where
  "demo_viewer_reading = viewer_run [ToggleReadAloud, VElapse 500, VTimerFires] demo_viewer"

definition demo_viewer_reading1 :: viewer_state where
  "demo_viewer_reading1 =
     viewer_run [ToggleReadAloud, VElapse 500, VTimerFires] demo_viewer_page1"

text \<open>The viewer of a page that has loaded part 003, after the story has arrived.\<close>

definition demo_viewer_enhanced :: viewer_state where
  "demo_viewer_enhanced =
     viewer_run [FetchSettled (Ok200 demo_story)] (viewer_init True (Some True) True)"

text \<open>A story of one page for the DOM book, and the book after the story has arrived.\<close>

definition demo_page_data :: page_data where
  "demo_page_data = \<lparr>pd_text = ''Once upon a time.'', pd_image = ''/img/1.png''\<rparr>"

definition demo_data :: story_data where
  "demo_data =
     \<lparr>sd_title = ''The Brave Dragon'', sd_ageRange = ''4-8'', sd_pages = [demo_page_data]\<rparr>"

definition demo_book :: book_state where
  "demo_book = book_run [StoryGenerated demo_data] (book_init [])"

definition demo_book_page1 :: book_state where
  "demo_book_page1 = book_run [ClickNext, Elapse 600, TimerFires] demo_book"

definition demo_book_last :: book_state where
  "demo_book_last = book_run [ClickNext, Elapse 600, TimerFires] demo_book_page1"

text \<open>A story of one page in the viewer.\<close>

definition demo_story1 :: story where
  "demo_story1 = \<lparr>title = ''The Brave Dragon'', age_range = ''4-8'', pages = [demo_page1]\<rparr>"

definition demo_viewer1 :: viewer_state where
  "demo_viewer1 =
     viewer_run [FetchSettled (Ok200 demo_story1)] (viewer_init True (Some True) False)"

text \<open>Stories without pages, and a mounted flipbook widget.\<close>

definition demo_empty_story :: story where
  "demo_empty_story = \<lparr>title = ''Untitled'', age_range = ''4-8'', pages = []\<rparr>"

definition demo_empty_data :: story_data where
  "demo_empty_data = \<lparr>sd_title = ''Untitled'', sd_ageRange = ''4-8'', sd_pages = []\<rparr>"

definition demo_viewer_empty :: viewer_state where
  "demo_viewer_empty = (viewer_init True None False)\<lparr>currentStory := Some demo_empty_story\<rparr>"

definition demo_flipbook :: flipbook_state where
  "demo_flipbook =
     \<lparr>fb_pages = [], fb_currentPage = 0, fb_totalPages = 0, flipbook_current = Some 0\<rparr>"

text \<open>The failures of the \<open>/generate\<close> request: a rejected promise or a response that is not ok.\<close>

definition generation_failed :: "fetch_outcome \<Rightarrow> bool" where
  "generation_failed r = (case r of Rejected m \<Rightarrow> True | NotOk b \<Rightarrow> True | _ \<Rightarrow> False)"

section \<open>Auxiliary lemmas\<close>

lemma repeat_call_fixed: "f s = Returned s \<Longrightarrow> repeat_call n f s = Returned s"
  by (induction n) simp_all

lemma updatePageState_fields:
  "book_rotation s = Some r \<Longrightarrow>
   \<exists>s'. updatePageState s = Returned s' \<and> currentPage s' = currentPage s
      \<and> isAnimating s' = isAnimating s \<and> timers s' = timers s
      \<and> totalPages s' = totalPages s \<and> now s' = now s
      \<and> book_rotation s' = Some (min (currentPage s * 2) 10)"
  by (simp add: updatePageState_def adjustBookPosition_def updateAccessibility_def
        updatePageIndicators_def Let_def)

lemma updateNavigationButtons_keeps:
  "isReadingAloud (state_of (updateNavigationButtons s)) = isReadingAloud s"
  "speechSynthesis (state_of (updateNavigationButtons s)) = speechSynthesis s"
  "vtimers (state_of (updateNavigationButtons s)) = vtimers s"
  "currentStory (state_of (updateNavigationButtons s)) = currentStory s"
  "currentPageIndex (state_of (updateNavigationButtons s)) = currentPageIndex s"
  "autoTurnPages (state_of (updateNavigationButtons s)) = autoTurnPages s"
  "vnow (state_of (updateNavigationButtons s)) = vnow s"
  by (simp_all add: updateNavigationButtons_def Let_def split: option.splits)

lemma goToPreviousPage_synth:
  "speechSynthesis (state_of (goToPreviousPage s)) =
     (if 0 < currentPageIndex s \<and> isReadingAloud s then cancel (speechSynthesis s)
      else speechSynthesis s)"
proof (cases "0 < currentPageIndex s")
  case False
  then show ?thesis by (simp add: goToPreviousPage_def)
next
  case True
  define s3 where "s3 = (let s1 = (if isReadingAloud s then stopReading s else s);
            s2 = s1\<lparr>currentPageIndex := currentPageIndex s1 - 1\<rparr>
        in (if currentPageIndex s2 = 0
                  then (case coverPage s2 of
                          None \<Rightarrow> s2
                        | Some f \<Rightarrow> s2\<lparr>coverPage := Some False\<rparr>)
                  else (case set_flipped (currentPageIndex s2) False (pageEls s2) of
                          None \<Rightarrow> s2
                        | Some els \<Rightarrow> s2\<lparr>pageEls := els\<rparr>)))"
  have q: "speechSynthesis s3 = (if isReadingAloud s then cancel (speechSynthesis s)
      else speechSynthesis s)"
    by (simp add: s3_def stopReading_def cancel_def Let_def split: option.splits)
  have "goToPreviousPage s = (case updateNavigationButtons s3 of
             Threw e s4 \<Rightarrow> Threw e s4
           | Returned s4 \<Rightarrow>
               Returned (if isReadingAloud s4
                         then s4\<lparr>vtimers := enqueue (vnow s4 + 500, ReadCurrentPage) (vtimers s4)\<rparr>
                         else s4))"
    using True by (simp add: goToPreviousPage_def s3_def Let_def)
  then have "speechSynthesis (state_of (goToPreviousPage s)) = speechSynthesis s3"
    using updateNavigationButtons_keeps(2)[of s3]
    by (cases "updateNavigationButtons s3") simp_all
  then show ?thesis using q True by simp
qed

lemma goToNextPage_synth:
  "speechSynthesis (state_of (goToNextPage s)) =
     (if (\<exists>st. currentStory s = Some st \<and> currentPageIndex s < int (length (pages st)))
          \<and> isReadingAloud s
      then cancel (speechSynthesis s) else speechSynthesis s)"
  by (simp add: goToNextPage_def stopReading_def cancel_def Let_def updateNavigationButtons_def
      split: option.splits)


lemma at_most_one_cancel:
  "speechSynthesis s' = cancel (speechSynthesis s) \<Longrightarrow> at_most_one_utterance s'"
  by (simp add: at_most_one_utterance_def cancel_def split: option.splits)

lemma at_most_one_same:
  "speechSynthesis s' = speechSynthesis s \<Longrightarrow> at_most_one_utterance s \<Longrightarrow> at_most_one_utterance s'"
  by (simp add: at_most_one_utterance_def)

lemma readCurrentPage_at_most_one: "at_most_one_utterance (state_of (readCurrentPage s))"
  by (simp add: readCurrentPage_def at_most_one_utterance_def cancel_def speak_def Let_def
      split: option.splits)

lemma readCurrentPage_enhanced_at_most_one:
  "at_most_one_utterance (state_of (readCurrentPage_enhanced w setting s))"
  by (simp add: readCurrentPage_enhanced_def at_most_one_utterance_def cancel_def speak_def Let_def
      split: option.splits)

lemma incrementPage_synth:
  "speechSynthesis (state_of (incrementPage s)) = speechSynthesis s"
  by (simp add: incrementPage_def updateNavigationButtons_def Let_def split: option.splits)

lemma displayStory_synth:
  "speechSynthesis (state_of (displayStory st s)) = speechSynthesis s"
  by (simp add: displayStory_def updateNavigationButtons_def Let_def split: option.splits list.splits)

lemma settled_synth:
  "speechSynthesis (handleGenerateStory_settled r s) = speechSynthesis s"
proof -
  have "speechSynthesis (case displayStory st (s\<lparr>currentStory := Some st\<rparr>) of
               Threw e s' \<Rightarrow> catch_generate ''TypeError'' s'
             | Returned s' \<Rightarrow> showStoryViewer s') = speechSynthesis s" for st
    using displayStory_synth[of st "s\<lparr>currentStory := Some st\<rparr>"]
    by (cases "displayStory st (s\<lparr>currentStory := Some st\<rparr>)")
       (simp_all add: catch_generate_def showError_def showStoryViewer_def)
  then show ?thesis
    by (simp add: handleGenerateStory_settled_def hideLoading_def catch_generate_def showError_def
        split: fetch_outcome.splits error_body.splits)
qed

lemma goToPreviousPage_at_most_one:
  "at_most_one_utterance s \<Longrightarrow> at_most_one_utterance (state_of (goToPreviousPage s))"
  using goToPreviousPage_synth[of s]
  by (auto intro: at_most_one_same at_most_one_cancel split: if_splits)

lemma goToNextPage_at_most_one:
  "at_most_one_utterance s \<Longrightarrow> at_most_one_utterance (state_of (goToNextPage s))"
  using goToNextPage_synth[of s]
  by (auto intro: at_most_one_same at_most_one_cancel split: if_splits)

lemma viewer_step_at_most_one:
  assumes "at_most_one_utterance s"
  shows "at_most_one_utterance (viewer_step e s)"
proof (cases e)
  case VClickPrev
  then show ?thesis using assms by (simp add: goToPreviousPage_at_most_one)
next
  case VClickNext
  then show ?thesis using assms by (simp add: goToNextPage_at_most_one)
next
  case (VSwipe x0 x1)
  then show ?thesis using assms
    by (simp add: handleSwipe_def goToPreviousPage_at_most_one goToNextPage_at_most_one)
next
  case ToggleReadAloud
  then show ?thesis using assms
    by (simp add: toggleReadAloud_def stopReading_def startReading_def at_most_one_utterance_def
          cancel_def split: option.splits)
next
  case VoiceSelected
  then show ?thesis using assms
    by (simp add: stopReading_def startReading_def at_most_one_utterance_def
          cancel_def split: option.splits)
next
  case BackToForm
  then show ?thesis using assms
    by (simp add: resetToForm_def stopReading_def at_most_one_utterance_def
          cancel_def split: option.splits)
next
  case CloseError
  then show ?thesis using assms by (simp add: hideError_def at_most_one_utterance_def)
next
  case (GenerateClick p)
  then show ?thesis using assms
    by (simp add: handleGenerateStory_request_def showError_def showLoading_def
          at_most_one_utterance_def)
next
  case (FetchSettled r)
  then show ?thesis using at_most_one_same[OF settled_synth assms] by simp
next
  case (VElapse d)
  then show ?thesis using assms by (simp add: at_most_one_utterance_def)
next
  case VTimerFires
  have "at_most_one_utterance (state_of (run_viewer_callback cb (s\<lparr>vtimers := ts\<rparr>)))" for cb ts
  proof -
    have a: "at_most_one_utterance (s\<lparr>vtimers := ts\<rparr>)"
      using assms by (simp add: at_most_one_utterance_def)
    show ?thesis
    proof (cases cb)
      case HideError
      then show ?thesis using a by (simp add: hideError_def at_most_one_utterance_def)
    next
      case IncrementPage
      then show ?thesis using at_most_one_same[OF incrementPage_synth a] by simp
    next
      case ReadCurrentPage
      then show ?thesis
        by (simp add: readCurrentPage_at_most_one readCurrentPage_enhanced_at_most_one)
    next
      case CallNextPage
      then show ?thesis using a by (simp add: nextPage_def)
    next
      case CallWindowNextPage
      then show ?thesis using a by (simp add: window_nextPage_def)
    qed
  qed
  then show ?thesis using VTimerFires assms
    by (simp add: fire_viewer_def split: list.splits prod.splits)
next
  case UtteranceEnds
  then show ?thesis using assms
    by (auto simp: utterance_onend_def at_most_one_utterance_def split: option.splits list.splits)
next
  case CancelledUtteranceEnds
  then show ?thesis using assms by (simp add: utterance_onend_def at_most_one_utterance_def)
qed

lemma viewer_run_at_most_one:
  "at_most_one_utterance s \<Longrightarrow> at_most_one_utterance (viewer_run es s)"
proof (induction es arbitrary: s)
  case Nil
  then show ?case by (simp add: viewer_run_def)
next
  case (Cons e es)
  from Cons.IH[OF viewer_step_at_most_one[OF Cons.prems, of e]]
  show ?case by (simp add: viewer_run_def)
qed

lemma viewer_init_at_most_one: "at_most_one_utterance (viewer_init cover auto enhanced)"
  by (simp add: viewer_init_def at_most_one_utterance_def)

lemma updatePageState_keeps:
  "currentPage (state_of (updatePageState s)) = currentPage s"
  "totalPages (state_of (updatePageState s)) = totalPages s"
  "isAnimating (state_of (updatePageState s)) = isAnimating s"
  "timers (state_of (updatePageState s)) = timers s"
  "now (state_of (updatePageState s)) = now s"
  by (simp_all add: updatePageState_def adjustBookPosition_def updateAccessibility_def
        updatePageIndicators_def Let_def split: option.splits)

lemma book_inv_cong:
  "currentPage s' = currentPage s \<Longrightarrow> totalPages s' = totalPages s \<Longrightarrow>
   isAnimating s' = isAnimating s \<Longrightarrow> timers s' = timers s \<Longrightarrow>
   book_inv s' = book_inv s"
  by (simp add: book_inv_def)

lemma goToNextPage_book_inv: "book_inv s \<Longrightarrow> book_inv (state_of (goToNextPage_book s))"
  by (auto simp: goToNextPage_book_def book_inv_def pending_next_def Let_def
      split: option.splits)

lemma goToPreviousPage_book_inv: "book_inv s \<Longrightarrow> book_inv (state_of (goToPreviousPage_book s))"
  by (auto simp: goToPreviousPage_book_def book_inv_def pending_next_def Let_def
      split: option.splits)

lemma run_book_callback_inv:
  assumes "book_inv (s\<lparr>timers := [(due, cb)]\<rparr>)"
  shows "book_inv (state_of (run_book_callback cb (s\<lparr>timers := []\<rparr>)))"
proof (cases cb)
  case (CommitPrev i)
  have "book_inv (state_of (run_book_callback cb (s\<lparr>timers := []\<rparr>)))
        = book_inv (s\<lparr>timers := [], isAnimating := False\<rparr>)"
    unfolding CommitPrev run_book_callback.simps
    by (rule book_inv_cong) (simp_all add: updatePageState_keeps)
  then show ?thesis using assms CommitPrev by (simp add: book_inv_def pending_next_def)
next
  case (CommitNext i)
  have "book_inv (state_of (run_book_callback cb (s\<lparr>timers := []\<rparr>)))
        = book_inv (s\<lparr>timers := [], currentPage := currentPage s + 1, isAnimating := False\<rparr>)"
    unfolding CommitNext run_book_callback.simps
    by (rule book_inv_cong) (simp_all add: updatePageState_keeps)
  then show ?thesis using assms CommitNext by (simp add: book_inv_def pending_next_def)
qed

lemma populateBook_length:
  "populateBook d s = Returned s' \<Longrightarrow>
     3 \<le> length (page_els s') \<and> timers s' = timers s \<and> isAnimating s' = isAnimating s"
  by (auto simp: populateBook_def Let_def split: list.splits option.splits)

lemma populateBook_returns:
  "sd_pages d \<noteq> [] \<Longrightarrow> book_rotation s = Some r \<Longrightarrow> \<exists>s'. populateBook d s = Returned s'"
  by (cases "sd_pages d") (simp_all add: populateBook_def Let_def)

lemma populateBook_threw: "populateBook d s = Threw e s' \<Longrightarrow> s' = s"
  by (auto simp: populateBook_def Let_def split: list.splits option.splits)

lemma storyGenerated_inv: "book_inv s \<Longrightarrow> book_inv (storyGenerated d s)"
proof (cases "populateBook d s")
  case (Threw e s')
  then show "book_inv s \<Longrightarrow> ?thesis"
    using populateBook_threw[OF Threw] by (simp add: storyGenerated_def)
next
  case (Returned s')
  assume inv: "book_inv s"
  from populateBook_length[OF Returned]
  have len: "3 \<le> length (page_els s')" and t: "timers s' = timers s"
    and a: "isAnimating s' = isAnimating s" by simp_all
  let ?c = "s'\<lparr>currentPage := 0, totalPages := int (length (page_els s'))\<rparr>"
  have "book_inv (state_of (updatePageState ?c)) = book_inv ?c"
    by (rule book_inv_cong) (simp_all add: updatePageState_keeps)
  moreover have "pending_next (timers s) \<le> int (length (timers s))"
    by (simp add: pending_next_def)
  then have "pending_next (timers s) \<le> 1"
    using inv by (auto simp: book_inv_def)
  then have "book_inv ?c"
    using inv len t a by (auto simp: book_inv_def)
  ultimately show ?thesis
    using Returned by (simp add: storyGenerated_def initializeBook_def)
qed

lemma book_step_inv:
  assumes "book_inv s"
  shows "book_inv (book_step e s)"
proof (cases e)
  case ClickPrev
  then show ?thesis using assms by (simp add: goToPreviousPage_book_inv)
next
  case ClickNext
  then show ?thesis using assms by (simp add: goToNextPage_book_inv)
next
  case (KeyDown k)
  then show ?thesis using assms
    by (cases k) (simp_all add: handleKeyDown_def goToPreviousPage_book_inv goToNextPage_book_inv)
next
  case (Swipe x0 x1)
  then show ?thesis using assms
    by (simp add: handleSwipe_book_def Let_def goToPreviousPage_book_inv goToNextPage_book_inv)
next
  case (StoryGenerated d)
  then show ?thesis using assms by (simp add: storyGenerated_inv)
next
  case CreateNewStory
  then show ?thesis using assms by (simp add: createNewStory_def book_inv_def)
next
  case (Elapse d)
  then show ?thesis using assms by (simp add: book_inv_def)
next
  case TimerFires
  show ?thesis
  proof (cases "timers s")
    case Nil
    then show ?thesis using TimerFires assms by (simp add: fire_book_def)
  next
    case (Cons t ts)
    then have ts: "ts = []" using assms by (auto simp: book_inv_def)
    obtain due cb where t: "t = (due, cb)" by (cases t)
    have "s\<lparr>timers := [(due, cb)]\<rparr> = s" using Cons ts t by simp
    with assms have "book_inv (s\<lparr>timers := [(due, cb)]\<rparr>)" by simp
    from run_book_callback_inv[OF this] show ?thesis
      using TimerFires Cons ts t assms by (simp add: fire_book_def)
  qed
qed

lemma book_run_inv: "book_inv s \<Longrightarrow> book_inv (book_run es s)"
proof (induction es arbitrary: s)
  case Nil
  then show ?case by (simp add: book_run_def)
next
  case (Cons e es)
  from Cons.IH[OF book_step_inv[OF Cons.prems, of e]]
  show ?case by (simp add: book_run_def)
qed

lemma book_loaded_inv:
  assumes "sd_pages d \<noteq> []"
  shows "book_inv (storyGenerated d (book_init els))"
proof -
  have "book_rotation (book_init els) = Some 0" by (simp add: book_init_def)
  from populateBook_returns[OF assms this]
  obtain s' where r: "populateBook d (book_init els) = Returned s'" by blast
  from populateBook_length[OF r]
  have len: "3 \<le> length (page_els s')" and t: "timers s' = []"
    and a: "\<not> isAnimating s'" by (simp_all add: book_init_def)
  let ?c = "s'\<lparr>currentPage := 0, totalPages := int (length (page_els s'))\<rparr>"
  have "book_inv (state_of (updatePageState ?c)) = book_inv ?c"
    by (rule book_inv_cong) (simp_all add: updatePageState_keeps)
  moreover have "book_inv ?c"
    using len t a by (auto simp: book_inv_def pending_next_def)
  ultimately show ?thesis using r by (simp add: storyGenerated_def initializeBook_def)
qed

lemma book_bounds:
  assumes "sd_pages d \<noteq> []"
  shows "0 \<le> currentPage (book_run es (storyGenerated d (book_init els)))
       \<and> currentPage (book_run es (storyGenerated d (book_init els)))
           \<le> totalPages (book_run es (storyGenerated d (book_init els))) - 1
       \<and> length (timers (book_run es (storyGenerated d (book_init els)))) \<le> 1"
proof -
  have "book_inv (book_run es (storyGenerated d (book_init els)))"
    by (rule book_run_inv[OF book_loaded_inv[OF assms]])
  moreover have "0 \<le> pending_next (timers (book_run es (storyGenerated d (book_init els))))"
    by (simp add: pending_next_def)
  ultimately show ?thesis
    unfolding book_inv_def by auto
qed

lemma js_or_nonempty: "b \<noteq> [] \<Longrightarrow> js_or a b \<noteq> []"
  by (simp add: js_or_def split: option.splits)

lemma settled_failure:
  assumes "generation_failed r"
  shows "\<exists>m. m \<noteq> [] \<and> handleGenerateStory_settled r s = hideLoading (showError m s)"
proof (cases r)
  case (Rejected m)
  let ?m = "js_or (Some m) ''An error occurred while generating your story''"
  have "?m \<noteq> []" by (rule js_or_nonempty) simp
  moreover have "handleGenerateStory_settled r s = hideLoading (showError ?m s)"
    using Rejected by (simp add: handleGenerateStory_settled_def catch_generate_def)
  ultimately show ?thesis by blast
next
  case (NotOk b)
  show ?thesis
  proof (cases b)
    case (NoJson m)
    let ?m = "js_or (Some m) ''An error occurred while generating your story''"
    have "?m \<noteq> []" by (rule js_or_nonempty) simp
    moreover have "handleGenerateStory_settled r s = hideLoading (showError ?m s)"
      using NotOk NoJson by (simp add: handleGenerateStory_settled_def catch_generate_def)
    ultimately show ?thesis by blast
  next
    case (ErrorData detail)
    let ?m = "js_or (Some (js_or detail ''Failed to generate story''))
                ''An error occurred while generating your story''"
    have "?m \<noteq> []" by (rule js_or_nonempty) simp
    moreover have "handleGenerateStory_settled r s = hideLoading (showError ?m s)"
      using NotOk ErrorData by (simp add: handleGenerateStory_settled_def catch_generate_def)
    ultimately show ?thesis by blast
  qed
next
  case (Ok200 st)
  then show ?thesis using assms by (simp add: generation_failed_def)
next
  case (Ok200NoJson m)
  then show ?thesis using assms by (simp add: generation_failed_def)
qed

text \<open>
  In every state the viewer reaches, the queue holds at most one utterance. The
  \<open>readCurrentPage\<close> of part 001, whatever is queued, leaves exactly the utterance of the
  current page when a story is loaded and the page has text.
\<close>

lemma viewer_queue_at_most_one:
  "at_most_one_utterance (viewer_run es (viewer_init cover auto enhanced))"
  by (rule viewer_run_at_most_one[OF viewer_init_at_most_one])

lemma readCurrentPage_speaks_cover:
  "speechSynthesis s = Some q \<Longrightarrow> currentStory s = Some st \<Longrightarrow> currentPageIndex s = 0 \<Longrightarrow>
   readCurrentPage s =
     Returned (s\<lparr>speechSynthesis :=
       Some [SpeechSynthesisUtterance (Introduction (title st) (age_range st))]\<rparr>)"
  by (simp add: readCurrentPage_def cancel_def speak_def Let_def)

lemma readCurrentPage_speaks_page:
  "speechSynthesis s = Some q \<Longrightarrow> currentStory s = Some st \<Longrightarrow> currentPageIndex s \<noteq> 0 \<Longrightarrow>
   js_index (pages st) (currentPageIndex s - 1) = Some p \<Longrightarrow> page_text p \<noteq> [] \<Longrightarrow>
   readCurrentPage s =
     Returned (s\<lparr>speechSynthesis := Some [SpeechSynthesisUtterance (PageText (page_text p))]\<rparr>)"
  by (simp add: readCurrentPage_def cancel_def speak_def Let_def)

text \<open>
  Narration with the script of part 003 loaded: the replacement of \<open>readCurrentPage\<close>
  empties the queue and throws, and its \<open>onend\<close> handler would never schedule an advance.
\<close>

lemma readCurrentPage_enhanced_throws:
  "speechSynthesis s = Some q \<Longrightarrow>
   readCurrentPage_enhanced page_window setting s
     = Threw TypeError (s\<lparr>speechSynthesis := Some []\<rparr>)"
  by (simp add: readCurrentPage_enhanced_def page_window_def cancel_def Let_def)

lemma utterance_onend_enhanced_idle: "utterance_onend_enhanced page_window s = s"
  by (simp add: utterance_onend_enhanced_def page_window_def)

text \<open>
  The DOM book rejects every request while \<open>isAnimating\<close> is set, and the viewer's
  fallback branch advances the index at once when the page element is missing.
\<close>

lemma book_requests_rejected_while_animating:
  "isAnimating s \<Longrightarrow>
     goToNextPage_book s = Returned s \<and> goToPreviousPage_book s = Returned s
     \<and> handleKeyDown k s = Returned s"
  by (simp add: goToNextPage_book_def goToPreviousPage_book_def handleKeyDown_def)

lemma viewer_fallback_without_element:
  assumes "currentStory s = Some st" "currentPageIndex s < int (length (pages st))"
    and "\<not> isReadingAloud s"
    and "currentPageIndex s = 0 \<longrightarrow> coverPage s = None"
    and "currentPageIndex s \<noteq> 0 \<longrightarrow> set_flipped (currentPageIndex s) True (pageEls s) = None"
  shows "\<exists>s'. goToNextPage s = Returned s' \<and> currentPageIndex s' = currentPageIndex s + 1
            \<and> vtimers s' = vtimers s"
  using assms
  by (cases "currentPageIndex s = 0")
     (simp_all add: goToNextPage_def updateNavigationButtons_def Let_def)

section \<open>Claims\<close>

text \<open>
  C1. Mutual exclusion of page turns: a \<open>goToNextPage\<close> or \<open>goToPreviousPage\<close> that
  arrives while a page turn is in flight shall be dropped, so that at most one page turn is
  in flight. The DOM book does this with its \<open>isAnimating\<close> flag
  (\<open>book_requests_rejected_while_animating\<close>, \<open>book_bounds\<close>). The viewer has no such
  flag. The theorem runs the viewer with the two-page story. On the cover, a second
  \<open>goToNextPage\<close>, called while the 50 ms timer of the first is pending, is accepted and
  queues a second timer, and when both have fired the index has advanced by 2. On page 1,
  a \<open>goToPreviousPage\<close> called while the timer of a \<open>goToNextPage\<close> is pending changes
  the index at once.
\<close>

theorem viewer_accepts_request_during_page_turn:
  "vtimers (viewer_run [VClickNext] demo_viewer) = [(50, IncrementPage)]
   \<and> vtimers (viewer_run [VClickNext, VClickNext] demo_viewer)
       = [(50, IncrementPage), (50, IncrementPage)]
   \<and> currentPageIndex demo_viewer = 0
   \<and> currentPageIndex
         (viewer_run [VClickNext, VClickNext, VElapse 50, VTimerFires, VTimerFires] demo_viewer)
       = 2
   \<and> currentPageIndex (viewer_run [VClickNext] demo_viewer_page1) = 1
   \<and> vtimers (viewer_run [VClickNext] demo_viewer_page1) = [(100, IncrementPage)]
   \<and> currentPageIndex (viewer_run [VClickNext, VClickPrev] demo_viewer_page1) = 0
   \<and> vtimers (viewer_run [VClickNext, VClickPrev] demo_viewer_page1) = [(100, IncrementPage)]"
  by code_simp

text \<open>
  C2. Deferred commit, as the DOM book implements it. From an idle state with the page
  element present, an accepted \<open>goToNextPage\<close> returns with \<open>currentPage\<close> unchanged and
  one timer due 600 ms later; the timer cannot fire earlier, and when it fires it
  increments \<open>currentPage\<close>, clears \<open>isAnimating\<close> and refreshes the page state, once. An
  accepted \<open>goToPreviousPage\<close> decrements \<open>currentPage\<close> before it returns; only the
  clearing of the markers and of \<open>isAnimating\<close> and the refresh wait for the timer, due
  600 ms later and fired once. In both cases \<open>currentPage\<close> has changed by exactly 1 in the
  requested direction and \<open>isAnimating\<close> is false after the commit.
\<close>

theorem deferred_commit_book:
  assumes idle: "\<not> isAnimating s" "timers s = []"
    and book: "book_rotation s = Some r"
    and nxt: "currentPage s < totalPages s - 1"
             "querySelector_page (currentPage s) (page_els s) = Some el"
    and idle2: "\<not> isAnimating t" "timers t = []"
    and book2: "book_rotation t = Some r'"
    and prv: "0 < currentPage t"
             "querySelector_page (currentPage t - 1) (page_els t) = Some el'"
  shows "(\<exists>s1. goToNextPage_book s = Returned s1
            \<and> currentPage s1 = currentPage s \<and> isAnimating s1
            \<and> book_rotation s1 = book_rotation s
            \<and> timers s1 = [(now s + 600, CommitNext (el_id el))]
            \<and> (\<forall>d<600. fire_book (s1\<lparr>now := now s1 + d\<rparr>) = None)
            \<and> (\<forall>d\<ge>600. \<exists>s2. fire_book (s1\<lparr>now := now s1 + d\<rparr>) = Some (Returned s2)
                   \<and> currentPage s2 = currentPage s + 1 \<and> \<not> isAnimating s2
                   \<and> book_rotation s2 = Some (min (currentPage s2 * 2) 10)
                   \<and> timers s2 = [] \<and> fire_book s2 = None))
       \<and> (\<exists>s1. goToPreviousPage_book t = Returned s1
            \<and> currentPage s1 = currentPage t - 1 \<and> isAnimating s1
            \<and> book_rotation s1 = book_rotation t
            \<and> timers s1 = [(now t + 600, CommitPrev (el_id el'))]
            \<and> (\<forall>d<600. fire_book (s1\<lparr>now := now s1 + d\<rparr>) = None)
            \<and> (\<forall>d\<ge>600. \<exists>s2. fire_book (s1\<lparr>now := now s1 + d\<rparr>) = Some (Returned s2)
                   \<and> currentPage s2 = currentPage t - 1 \<and> \<not> isAnimating s2
                   \<and> book_rotation s2 = Some (min (currentPage s2 * 2) 10)
                   \<and> timers s2 = [] \<and> fire_book s2 = None))"
proof (rule conjI)
  define s1 where "s1 = s\<lparr>isAnimating := True,
      page_els := update_el (el_id el) (\<lambda>p. p\<lparr>cls_turning := True\<rparr>) (page_els s),
      timers := [(now s + 600, CommitNext (el_id el))]\<rparr>"
  have ret: "goToNextPage_book s = Returned s1"
    using idle nxt by (simp add: goToNextPage_book_def s1_def)
  have early: "\<forall>d<600. fire_book (s1\<lparr>now := now s1 + d\<rparr>) = None"
    by (simp add: fire_book_def s1_def)
  have late: "\<exists>s2. fire_book (s1\<lparr>now := now s1 + d\<rparr>) = Some (Returned s2)
                   \<and> currentPage s2 = currentPage s + 1 \<and> \<not> isAnimating s2
                   \<and> book_rotation s2 = Some (min (currentPage s2 * 2) 10)
                   \<and> timers s2 = [] \<and> fire_book s2 = None" if "600 \<le> d" for d
  proof -
    let ?c = "s1\<lparr>now := now s1 + d, timers := [],
                 page_els := update_el (el_id el) (\<lambda>p. p\<lparr>cls_flipped := True, cls_turning := False\<rparr>)
                               (page_els s1),
                 currentPage := currentPage s1 + 1, isAnimating := False\<rparr>"
    have f: "fire_book (s1\<lparr>now := now s1 + d\<rparr>) = Some (updatePageState ?c)"
      using that by (simp add: fire_book_def s1_def)
    have "book_rotation ?c = Some r" using book by (simp add: s1_def)
    from updatePageState_fields[OF this] obtain s2 where
      "updatePageState ?c = Returned s2" "currentPage s2 = currentPage ?c"
      "isAnimating s2 = isAnimating ?c" "timers s2 = timers ?c"
      "book_rotation s2 = Some (min (currentPage ?c * 2) 10)" by blast
    then show ?thesis using f by (auto simp: s1_def fire_book_def)
  qed
  show "\<exists>s1. goToNextPage_book s = Returned s1
            \<and> currentPage s1 = currentPage s \<and> isAnimating s1
            \<and> book_rotation s1 = book_rotation s
            \<and> timers s1 = [(now s + 600, CommitNext (el_id el))]
            \<and> (\<forall>d<600. fire_book (s1\<lparr>now := now s1 + d\<rparr>) = None)
            \<and> (\<forall>d\<ge>600. \<exists>s2. fire_book (s1\<lparr>now := now s1 + d\<rparr>) = Some (Returned s2)
                   \<and> currentPage s2 = currentPage s + 1 \<and> \<not> isAnimating s2
                   \<and> book_rotation s2 = Some (min (currentPage s2 * 2) 10)
                   \<and> timers s2 = [] \<and> fire_book s2 = None)"
    using ret early late by (intro exI[of _ s1]) (simp add: s1_def)
next
  define s1 where "s1 = t\<lparr>isAnimating := True, currentPage := currentPage t - 1,
      page_els := update_el (el_id el') (\<lambda>p. p\<lparr>cls_returning := True\<rparr>) (page_els t),
      timers := [(now t + 600, CommitPrev (el_id el'))]\<rparr>"
  have ret: "goToPreviousPage_book t = Returned s1"
    using idle2 prv by (simp add: goToPreviousPage_book_def s1_def)
  have early: "\<forall>d<600. fire_book (s1\<lparr>now := now s1 + d\<rparr>) = None"
    by (simp add: fire_book_def s1_def)
  have late: "\<exists>s2. fire_book (s1\<lparr>now := now s1 + d\<rparr>) = Some (Returned s2)
                   \<and> currentPage s2 = currentPage t - 1 \<and> \<not> isAnimating s2
                   \<and> book_rotation s2 = Some (min (currentPage s2 * 2) 10)
                   \<and> timers s2 = [] \<and> fire_book s2 = None" if "600 \<le> d" for d
  proof -
    let ?c = "s1\<lparr>now := now s1 + d, timers := [],
                 page_els := update_el (el_id el') (\<lambda>p. p\<lparr>cls_flipped := False, cls_returning := False\<rparr>)
                               (page_els s1),
                 isAnimating := False\<rparr>"
    have f: "fire_book (s1\<lparr>now := now s1 + d\<rparr>) = Some (updatePageState ?c)"
      using that by (simp add: fire_book_def s1_def)
    have "book_rotation ?c = Some r'" using book2 by (simp add: s1_def)
    from updatePageState_fields[OF this] obtain s2 where
      "updatePageState ?c = Returned s2" "currentPage s2 = currentPage ?c"
      "isAnimating s2 = isAnimating ?c" "timers s2 = timers ?c"
      "book_rotation s2 = Some (min (currentPage ?c * 2) 10)" by blast
    then show ?thesis using f by (auto simp: s1_def fire_book_def)
  qed
  show "\<exists>s1. goToPreviousPage_book t = Returned s1
            \<and> currentPage s1 = currentPage t - 1 \<and> isAnimating s1
            \<and> book_rotation s1 = book_rotation t
            \<and> timers s1 = [(now t + 600, CommitPrev (el_id el'))]
            \<and> (\<forall>d<600. fire_book (s1\<lparr>now := now s1 + d\<rparr>) = None)
            \<and> (\<forall>d\<ge>600. \<exists>s2. fire_book (s1\<lparr>now := now s1 + d\<rparr>) = Some (Returned s2)
                   \<and> currentPage s2 = currentPage t - 1 \<and> \<not> isAnimating s2
                   \<and> book_rotation s2 = Some (min (currentPage s2 * 2) 10)
                   \<and> timers s2 = [] \<and> fire_book s2 = None)"
    using ret early late by (intro exI[of _ s1]) (simp add: s1_def)
qed

theorem deferred_commit_book_witness:
  "(\<not> isAnimating demo_book \<and> timers demo_book = [] \<and> book_rotation demo_book = Some 0
      \<and> currentPage demo_book < totalPages demo_book - 1
      \<and> querySelector_page (currentPage demo_book) (page_els demo_book)
          = Some (hd (page_els demo_book)))
   \<and> (\<not> isAnimating demo_book_page1 \<and> timers demo_book_page1 = []
      \<and> book_rotation demo_book_page1 = Some 2
      \<and> 0 < currentPage demo_book_page1
      \<and> querySelector_page (currentPage demo_book_page1 - 1) (page_els demo_book_page1)
          = Some (hd (page_els demo_book_page1)))
   \<and> (\<exists>s1. goToNextPage_book demo_book = Returned s1
            \<and> currentPage s1 = currentPage demo_book \<and> isAnimating s1
            \<and> book_rotation s1 = book_rotation demo_book
            \<and> timers s1 = [(now demo_book + 600, CommitNext (el_id (hd (page_els demo_book))))]
            \<and> (\<forall>d<600. fire_book (s1\<lparr>now := now s1 + d\<rparr>) = None)
            \<and> (\<forall>d\<ge>600. \<exists>s2. fire_book (s1\<lparr>now := now s1 + d\<rparr>) = Some (Returned s2)
                   \<and> currentPage s2 = currentPage demo_book + 1 \<and> \<not> isAnimating s2
                   \<and> book_rotation s2 = Some (min (currentPage s2 * 2) 10)
                   \<and> timers s2 = [] \<and> fire_book s2 = None))
   \<and> (\<exists>s1. goToPreviousPage_book demo_book_page1 = Returned s1
            \<and> currentPage s1 = currentPage demo_book_page1 - 1 \<and> isAnimating s1
            \<and> book_rotation s1 = book_rotation demo_book_page1
            \<and> timers s1 = [(now demo_book_page1 + 600, CommitPrev (el_id (hd (page_els demo_book_page1))))]
            \<and> (\<forall>d<600. fire_book (s1\<lparr>now := now s1 + d\<rparr>) = None)
            \<and> (\<forall>d\<ge>600. \<exists>s2. fire_book (s1\<lparr>now := now s1 + d\<rparr>) = Some (Returned s2)
                   \<and> currentPage s2 = currentPage demo_book_page1 - 1 \<and> \<not> isAnimating s2
                   \<and> book_rotation s2 = Some (min (currentPage s2 * 2) 10)
                   \<and> timers s2 = [] \<and> fire_book s2 = None))"
proof -
  have h1: "\<not> isAnimating demo_book" and h2: "timers demo_book = []"
    and h3: "book_rotation demo_book = Some 0"
    and h4: "currentPage demo_book < totalPages demo_book - 1"
    and h5: "querySelector_page (currentPage demo_book) (page_els demo_book)
          = Some (hd (page_els demo_book))"
    by code_simp+
  have k1: "\<not> isAnimating demo_book_page1" and k2: "timers demo_book_page1 = []"
    and k3: "book_rotation demo_book_page1 = Some 2"
    and k4: "0 < currentPage demo_book_page1"
    and k5: "querySelector_page (currentPage demo_book_page1 - 1) (page_els demo_book_page1)
          = Some (hd (page_els demo_book_page1))"
    by code_simp+
  show ?thesis
    using h1 h2 h3 h4 h5 k1 k2 k3 k4 k5
      deferred_commit_book [OF h1 h2 h3 h4 h5 k1 k2 k3 k4 k5]
    by blast
qed

text \<open>
  The index update of \<open>goToPreviousPage\<close> is synchronous: on page 1 of the book the call
  returns with \<open>currentPage = 0\<close> while its commit timer is still pending and not due.
\<close>

theorem previous_page_index_changes_at_once:
  "currentPage demo_book_page1 = 1
   \<and> \<not> isAnimating demo_book_page1
   \<and> goToPreviousPage_book demo_book_page1
       = Returned (state_of (goToPreviousPage_book demo_book_page1))
   \<and> currentPage (state_of (goToPreviousPage_book demo_book_page1)) = 0
   \<and> timers (state_of (goToPreviousPage_book demo_book_page1)) = [(1200, CommitPrev 1)]
   \<and> now (state_of (goToPreviousPage_book demo_book_page1)) = 600
   \<and> fire_book (state_of (goToPreviousPage_book demo_book_page1)) = None"
  by code_simp

text \<open>
  C3. Cursor bounds: \<open>0 \<le> currentIndex \<le> totalCount\<close> in every reachable state, with
  \<open>totalCount = totalPages - 1\<close> in the DOM book and \<open>pages.length\<close> in the viewer. The DOM
  book keeps its bound (\<open>book_bounds\<close>). The viewer checks \<open>currentPageIndex <
  pages.length\<close> when the request arrives but increments 50 ms later. The theorem runs the
  viewer with the one-page story: two \<open>goToNextPage\<close> calls before the first timer fires
  both pass the check, and the index ends at 2 with \<open>pages.length = 1\<close>.
\<close>

theorem viewer_index_exceeds_page_count:
  "currentStory demo_viewer1 = Some demo_story1
   \<and> int (length (pages demo_story1)) = 1
   \<and> currentPageIndex demo_viewer1 = 0
   \<and> currentStory
         (viewer_run [VClickNext, VClickNext, VElapse 50, VTimerFires, VTimerFires] demo_viewer1)
       = Some demo_story1
   \<and> currentPageIndex
         (viewer_run [VClickNext, VClickNext, VElapse 50, VTimerFires, VTimerFires] demo_viewer1)
       = 2"
  by code_simp

text \<open>
  C4. Boundary requests are silent no-ops. In the DOM book, \<open>goToNextPage\<close> called while
  idle at \<open>currentPage = totalPages - 1\<close> and \<open>goToPreviousPage\<close> called while idle at
  \<open>currentPage = 0\<close>, and in the viewer \<open>goToNextPage\<close> at
  \<open>currentPageIndex = pages.length\<close> of the loaded story and \<open>goToPreviousPage\<close> at
  \<open>currentPageIndex = 0\<close>, return without throwing and leave the whole state as it was
  (the index, the animation flag, the timers), however many times they are called in a
  row.
\<close>

theorem boundary_requests_are_noops:
  "(\<not> isAnimating b \<and> currentPage b = totalPages b - 1
      \<longrightarrow> repeat_call n goToNextPage_book b = Returned b)
   \<and> (\<not> isAnimating b' \<and> currentPage b' = 0
      \<longrightarrow> repeat_call n goToPreviousPage_book b' = Returned b')
   \<and> (currentStory v = Some st \<and> currentPageIndex v = int (length (pages st))
      \<longrightarrow> repeat_call n goToNextPage v = Returned v)
   \<and> (currentPageIndex v' = 0 \<longrightarrow> repeat_call n goToPreviousPage v' = Returned v')"
proof (intro conjI impI)
  assume "\<not> isAnimating b \<and> currentPage b = totalPages b - 1"
  then have "goToNextPage_book b = Returned b"
    by (simp add: goToNextPage_book_def)
  then show "repeat_call n goToNextPage_book b = Returned b"
    by (rule repeat_call_fixed)
next
  assume "\<not> isAnimating b' \<and> currentPage b' = 0"
  then have "goToPreviousPage_book b' = Returned b'"
    by (simp add: goToPreviousPage_book_def)
  then show "repeat_call n goToPreviousPage_book b' = Returned b'"
    by (rule repeat_call_fixed)
next
  assume "currentStory v = Some st \<and> currentPageIndex v = int (length (pages st))"
  then have "goToNextPage v = Returned v"
    by (simp add: goToNextPage_def)
  then show "repeat_call n goToNextPage v = Returned v"
    by (rule repeat_call_fixed)
next
  assume "currentPageIndex v' = 0"
  then have "goToPreviousPage v' = Returned v'"
    by (simp add: goToPreviousPage_def)
  then show "repeat_call n goToPreviousPage v' = Returned v'"
    by (rule repeat_call_fixed)
qed

theorem boundary_requests_are_noops_witness:
  "(\<not> isAnimating demo_book_last \<and> currentPage demo_book_last = totalPages demo_book_last - 1)
   \<and> (\<not> isAnimating demo_book \<and> currentPage demo_book = 0)
   \<and> (currentStory demo_viewer_last = Some demo_story
        \<and> currentPageIndex demo_viewer_last = int (length (pages demo_story)))
   \<and> currentPageIndex demo_viewer = 0
   \<and> repeat_call 3 goToNextPage_book demo_book_last = Returned demo_book_last
   \<and> repeat_call 3 goToPreviousPage_book demo_book = Returned demo_book
   \<and> repeat_call 3 goToNextPage demo_viewer_last = Returned demo_viewer_last
   \<and> repeat_call 3 goToPreviousPage demo_viewer = Returned demo_viewer"
proof -
  have h1: "\<not> isAnimating demo_book_last \<and> currentPage demo_book_last = totalPages demo_book_last - 1"
    by code_simp
  have h2: "\<not> isAnimating demo_book \<and> currentPage demo_book = 0"
    by code_simp
  have h3: "currentStory demo_viewer_last = Some demo_story
        \<and> currentPageIndex demo_viewer_last = int (length (pages demo_story))"
    by code_simp
  have h4: "currentPageIndex demo_viewer = 0"
    by code_simp
  show ?thesis
    using h1 h2 h3 h4
      boundary_requests_are_noops [of demo_book_last 3 demo_book demo_viewer_last demo_story
        demo_viewer]
    by blast
qed

text \<open>
  C5. Auto-advance: when an utterance ends while narration is active and the auto-turn
  checkbox is checked, exactly one forward page-turn request shall be issued after a
  fixed delay. The \<open>onend\<close> handler of part 001 does schedule one timer, 1000 ms later,
  but its callback calls \<open>nextPage()\<close>, a name no script declares. The theorem runs the
  viewer while it reads the cover of the two-page story with the checkbox checked: the
  utterance ends, the timer is queued for 1000 ms later, and when it fires the callback
  throws a \<open>ReferenceError\<close>; the index is still 0, no page has been flipped and no timer
  is left.
\<close>

theorem auto_advance_calls_undeclared_nextPage:
  "isReadingAloud demo_viewer_reading
   \<and> autoTurnPages demo_viewer_reading = Some True
   \<and> speechSynthesis demo_viewer_reading
       = Some [SpeechSynthesisUtterance (Introduction ''The Brave Dragon'' ''4-8'')]
   \<and> currentPageIndex demo_viewer_reading = 0
   \<and> vnow demo_viewer_reading = 500
   \<and> vtimers (viewer_run [UtteranceEnds] demo_viewer_reading) = [(1500, CallNextPage)]
   \<and> fire_viewer (viewer_run [UtteranceEnds, VElapse 999] demo_viewer_reading) = None
   \<and> fire_viewer (viewer_run [UtteranceEnds, VElapse 1000] demo_viewer_reading)
       = Some (Threw ReferenceError
                 ((viewer_run [UtteranceEnds, VElapse 1000] demo_viewer_reading)
                    \<lparr>vtimers := []\<rparr>))
   \<and> currentPageIndex
         (viewer_run [UtteranceEnds, VElapse 1000, VTimerFires] demo_viewer_reading) = 0
   \<and> coverPage (viewer_run [UtteranceEnds, VElapse 1000, VTimerFires] demo_viewer_reading)
       = Some False
   \<and> vtimers (viewer_run [UtteranceEnds, VElapse 1000, VTimerFires] demo_viewer_reading) = []"
  by code_simp

text \<open>
  C6. Narration restarts after a settle: with narration active when a page turn is
  requested, narration shall be restarted for the new page once the turn has committed.
  Both \<open>goToNextPage\<close> and \<open>goToPreviousPage\<close> of the viewer call \<open>stopReading\<close> first,
  which clears \<open>isReadingAloud\<close>, and then test the same flag to decide whether to read the
  new page. The theorem runs the viewer while it reads the cover: after \<open>goToNextPage\<close> and
  its timer the index is 1, \<open>isReadingAloud\<close> is false, nothing is queued for speaking
  and no timer is pending. The same holds after \<open>goToPreviousPage\<close> while it reads page 1.
\<close>

theorem narration_off_after_page_turn:
  "isReadingAloud demo_viewer_reading
   \<and> speechSynthesis demo_viewer_reading
       = Some [SpeechSynthesisUtterance (Introduction ''The Brave Dragon'' ''4-8'')]
   \<and> currentPageIndex
         (viewer_run [VClickNext, VElapse 50, VTimerFires] demo_viewer_reading) = 1
   \<and> \<not> isReadingAloud (viewer_run [VClickNext, VElapse 50, VTimerFires] demo_viewer_reading)
   \<and> speechSynthesis (viewer_run [VClickNext, VElapse 50, VTimerFires] demo_viewer_reading)
       = Some []
   \<and> vtimers (viewer_run [VClickNext, VElapse 50, VTimerFires] demo_viewer_reading) = []
   \<and> isReadingAloud demo_viewer_reading1
   \<and> currentPageIndex (viewer_run [VClickPrev] demo_viewer_reading1) = 0
   \<and> \<not> isReadingAloud (viewer_run [VClickPrev] demo_viewer_reading1)
   \<and> speechSynthesis (viewer_run [VClickPrev] demo_viewer_reading1) = Some []
   \<and> vtimers (viewer_run [VClickPrev] demo_viewer_reading1) = []"
  by code_simp

text \<open>
  C7. One utterance per start of narration: a start of narration shall cancel what is in
  flight and leave exactly one active utterance, the one for the current page. The
  \<open>readCurrentPage\<close> of part 001 does so (\<open>readCurrentPage_speaks_cover\<close>,
  \<open>readCurrentPage_speaks_page\<close>), and no reachable state holds two utterances
  (\<open>viewer_queue_at_most_one\<close>). Its replacement in part 003 cancels and then reads
  \<open>window.currentStory\<close>, which is undefined. The theorem runs the viewer of a page that
  has loaded part 003, with the two-page story: narration is switched on, 500 ms later the
  timer calls \<open>readCurrentPage()\<close>, which throws a \<open>TypeError\<close>; narration counts as
  active, and the queue holds no utterance.
\<close>

theorem enhanced_narration_never_speaks:
  "enhancedNarration demo_viewer_enhanced
   \<and> currentStory demo_viewer_enhanced = Some demo_story
   \<and> currentPageIndex demo_viewer_enhanced = 0
   \<and> speechSynthesis demo_viewer_enhanced = Some []
   \<and> vtimers (viewer_run [ToggleReadAloud] demo_viewer_enhanced) = [(500, ReadCurrentPage)]
   \<and> fire_viewer (viewer_run [ToggleReadAloud, VElapse 500] demo_viewer_enhanced)
       = Some (Threw TypeError
                 ((viewer_run [ToggleReadAloud, VElapse 500] demo_viewer_enhanced)
                    \<lparr>vtimers := []\<rparr>))
   \<and> isReadingAloud
         (viewer_run [ToggleReadAloud, VElapse 500, VTimerFires] demo_viewer_enhanced)
   \<and> speechSynthesis
         (viewer_run [ToggleReadAloud, VElapse 500, VTimerFires] demo_viewer_enhanced)
       = Some []
   \<and> vtimers (viewer_run [ToggleReadAloud, VElapse 500, VTimerFires] demo_viewer_enhanced)
       = []"
  by code_simp

text \<open>
  C8. Generation failure is atomic. When the \<open>/generate\<close> request fails (the promise
  rejects, or the response is not ok), \<open>handleGenerateStory\<close> leaves \<open>currentStory\<close>,
  \<open>currentPageIndex\<close> and the page elements as they were, shows a non-empty error message
  and schedules \<open>hideError\<close> 8000 ms later; with no other timer pending the message cannot
  be hidden by a timer before that, and the timer hides it without touching story or
  index. The part of the handler before the request does not touch them either.
\<close>

theorem generation_failure_keeps_story_and_cursor:
  assumes "generation_failed r"
  shows "currentStory (handleGenerateStory_settled r s) = currentStory s
       \<and> currentPageIndex (handleGenerateStory_settled r s) = currentPageIndex s
       \<and> pageEls (handleGenerateStory_settled r s) = pageEls s
       \<and> coverPage (handleGenerateStory_settled r s) = coverPage s
       \<and> storyViewer_hidden (handleGenerateStory_settled r s) = storyViewer_hidden s
       \<and> \<not> errorMessage_hidden (handleGenerateStory_settled r s)
       \<and> errorText (handleGenerateStory_settled r s) \<noteq> []
       \<and> vtimers (handleGenerateStory_settled r s)
           = enqueue (vnow s + 8000, HideError) (vtimers s)
       \<and> (vtimers s = [] \<longrightarrow>
            (\<forall>d<8000. fire_viewer ((handleGenerateStory_settled r s)\<lparr>vnow := vnow s + d\<rparr>) = None)
          \<and> (\<forall>d\<ge>8000. \<exists>s2.
                fire_viewer ((handleGenerateStory_settled r s)\<lparr>vnow := vnow s + d\<rparr>)
                  = Some (Returned s2)
                \<and> errorMessage_hidden s2 \<and> vtimers s2 = []
                \<and> currentStory s2 = currentStory s
                \<and> currentPageIndex s2 = currentPageIndex s))
       \<and> currentStory (fst (handleGenerateStory_request prompt s)) = currentStory s
       \<and> currentPageIndex (fst (handleGenerateStory_request prompt s)) = currentPageIndex s"
proof -
  from settled_failure[OF assms] obtain m where
    m: "m \<noteq> []" and eq: "handleGenerateStory_settled r s = hideLoading (showError m s)"
    by blast
  show ?thesis
    unfolding eq using m
    by (simp add: hideLoading_def showError_def handleGenerateStory_request_def showLoading_def
          fire_viewer_def hideError_def)
qed

theorem generation_failure_keeps_story_and_cursor_witness:
  "generation_failed (NotOk (ErrorData (Some ''Story generation failed'')))
   \<and> vtimers demo_viewer_page1 = []
   \<and> currentStory (handleGenerateStory_settled
         (NotOk (ErrorData (Some ''Story generation failed''))) demo_viewer_page1)
       = Some demo_story
   \<and> currentPageIndex (handleGenerateStory_settled
         (NotOk (ErrorData (Some ''Story generation failed''))) demo_viewer_page1) = 1
   \<and> errorText (handleGenerateStory_settled
         (NotOk (ErrorData (Some ''Story generation failed''))) demo_viewer_page1)
       = ''Story generation failed''
   \<and> \<not> errorMessage_hidden (handleGenerateStory_settled
         (NotOk (ErrorData (Some ''Story generation failed''))) demo_viewer_page1)
   \<and> vtimers (handleGenerateStory_settled
         (NotOk (ErrorData (Some ''Story generation failed''))) demo_viewer_page1)
       = [(8050, HideError)]
   \<and> fire_viewer ((handleGenerateStory_settled
         (NotOk (ErrorData (Some ''Story generation failed''))) demo_viewer_page1)
           \<lparr>vnow := vnow demo_viewer_page1 + 7999\<rparr>) = None"
proof -
  have h: "generation_failed (NotOk (ErrorData (Some ''Story generation failed'')))"
    by code_simp
  have e: "vtimers demo_viewer_page1 = []"
    and c: "currentStory demo_viewer_page1 = Some demo_story"
           "currentPageIndex demo_viewer_page1 = 1" "vnow demo_viewer_page1 = 50"
    by code_simp+
  have t: "errorText (handleGenerateStory_settled
         (NotOk (ErrorData (Some ''Story generation failed''))) demo_viewer_page1)
       = ''Story generation failed''"
    by code_simp
  note inst = generation_failure_keeps_story_and_cursor
        [OF h, where s = demo_viewer_page1 and prompt = "''a dragon''"]
  from inst c have story: "currentStory (handleGenerateStory_settled
         (NotOk (ErrorData (Some ''Story generation failed''))) demo_viewer_page1)
       = Some demo_story"
    and idx: "currentPageIndex (handleGenerateStory_settled
         (NotOk (ErrorData (Some ''Story generation failed''))) demo_viewer_page1) = 1"
    by simp_all
  from inst have shown: "\<not> errorMessage_hidden (handleGenerateStory_settled
         (NotOk (ErrorData (Some ''Story generation failed''))) demo_viewer_page1)"
    by blast
  from inst e c have tm: "vtimers (handleGenerateStory_settled
         (NotOk (ErrorData (Some ''Story generation failed''))) demo_viewer_page1)
       = [(8050, HideError)]"
    by simp
  from inst e have early: "\<forall>d<8000. fire_viewer ((handleGenerateStory_settled
         (NotOk (ErrorData (Some ''Story generation failed''))) demo_viewer_page1)
           \<lparr>vnow := vnow demo_viewer_page1 + d\<rparr>) = None"
    by blast
  have e7999: "fire_viewer ((handleGenerateStory_settled
         (NotOk (ErrorData (Some ''Story generation failed''))) demo_viewer_page1)
           \<lparr>vnow := vnow demo_viewer_page1 + 7999\<rparr>) = None"
    using early [rule_format, of 7999] by simp
  show ?thesis
    using h e story idx t shown tm e7999 by blast
qed

text \<open>
  C9. A missing page element shall not be fatal: the request does not throw and the index
  still advances. The viewer has this fallback (\<open>viewer_fallback_without_element\<close>). The
  DOM book uses the result of \<open>querySelector\<close> unchecked. The theorem runs the book after
  the button of the back cover has emptied it: \<open>goToNextPage\<close> and \<open>goToPreviousPage\<close>
  throw a \<open>TypeError\<close> after setting \<open>isAnimating\<close>, no timer is left to clear the flag,
  and a later story cannot be paged through.
\<close>

theorem book_page_turn_throws_without_element:
  "goToNextPage_book (createNewStory demo_book)
     = Threw TypeError ((createNewStory demo_book)\<lparr>isAnimating := True\<rparr>)
   \<and> goToPreviousPage_book (createNewStory demo_book_page1)
     = Threw TypeError ((createNewStory demo_book_page1)\<lparr>isAnimating := True, currentPage := 0\<rparr>)
   \<and> timers (book_run [CreateNewStory, KeyDown ArrowRight] demo_book) = []
   \<and> isAnimating (book_run [CreateNewStory, KeyDown ArrowRight] demo_book)
   \<and> currentPage (book_run [CreateNewStory, KeyDown ArrowRight, StoryGenerated demo_data,
                              ClickNext, Elapse 600, TimerFires] demo_book) = 0"
  by code_simp

text \<open>
  C10. The cover needs a first page. \<open>populateBook\<close> and \<open>addStoryPages\<close> read
  \<open>pages[0]\<close> without a check: on a story without pages both throw a \<open>TypeError\<close> and
  leave their state as it was, so they return only for stories with at least one page,
  whose first image becomes the cover. \<open>displayStory\<close> reads \<open>pages[0]\<close> inside its
  length check: on a story without pages it returns, with the cover image untouched.
\<close>

theorem cover_reads_first_page_unguarded:
  "(sd_pages d = [] \<longrightarrow> populateBook d b = Threw TypeError b)
   \<and> (\<not> threw (populateBook d' b') \<longrightarrow> sd_pages d' \<noteq> [])
   \<and> (pages st = [] \<longrightarrow> addStoryPages st f = Threw TypeError f)
   \<and> (\<not> threw (addStoryPages st' f') \<longrightarrow> pages st' \<noteq> [])
   \<and> (sd_pages d' = p # ps \<and> book_rotation b' = Some r
        \<longrightarrow> (\<exists>b2. populateBook d' b' = Returned b2
               \<and> content (page_els b2 ! length (page_els b'))
                   = FrontCover (sd_title d') (pd_image p) (sd_ageRange d')))
   \<and> (pages st' = p' # ps'
        \<longrightarrow> (\<exists>f2. addStoryPages st' f' = Returned f2
               \<and> fb_image (hd (fb_pages f2)) = Some (image_url p')
               \<and> length (fb_pages f2) = length (pages st') + 2))
   \<and> (pages st = [] \<and> currentStory v = Some st
        \<longrightarrow> (\<exists>v2. displayStory st v = Returned v2 \<and> coverImage v2 = coverImage v
               \<and> currentPageIndex v2 = 0 \<and> (\<not> traditionalBook_hidden v \<longrightarrow> pageEls v2 = [])))"
proof (intro conjI impI)
  assume "sd_pages d = []"
  then show "populateBook d b = Threw TypeError b"
    by (simp add: populateBook_def)
next
  assume "\<not> threw (populateBook d' b')"
  then show "sd_pages d' \<noteq> []"
    by (auto simp: populateBook_def)
next
  assume "pages st = []"
  then show "addStoryPages st f = Threw TypeError f"
    by (simp add: addStoryPages_def)
next
  assume "\<not> threw (addStoryPages st' f')"
  then show "pages st' \<noteq> []"
    by (auto simp: addStoryPages_def)
next
  assume "sd_pages d' = p # ps \<and> book_rotation b' = Some r"
  then show "\<exists>b2. populateBook d' b' = Returned b2
               \<and> content (page_els b2 ! length (page_els b'))
                   = FrontCover (sd_title d') (pd_image p) (sd_ageRange d')"
    by (simp add: populateBook_def Let_def new_page_def)
next
  assume "pages st' = p' # ps'"
  then show "\<exists>f2. addStoryPages st' f' = Returned f2
               \<and> fb_image (hd (fb_pages f2)) = Some (image_url p')
               \<and> length (fb_pages f2) = length (pages st') + 2"
    by (simp add: addStoryPages_def Let_def)
next
  assume "pages st = [] \<and> currentStory v = Some st"
  then show "\<exists>v2. displayStory st v = Returned v2 \<and> coverImage v2 = coverImage v
               \<and> currentPageIndex v2 = 0 \<and> (\<not> traditionalBook_hidden v \<longrightarrow> pageEls v2 = [])"
    by (simp add: displayStory_def Let_def updateNavigationButtons_def)
qed

theorem cover_reads_first_page_unguarded_witness:
  "sd_pages demo_empty_data = []
   \<and> \<not> threw (populateBook demo_data (book_init []))
   \<and> pages demo_empty_story = []
   \<and> \<not> threw (addStoryPages demo_story demo_flipbook)
   \<and> (sd_pages demo_data = demo_page_data # [] \<and> book_rotation (book_init []) = Some 0)
   \<and> pages demo_story = demo_page1 # [demo_page2]
   \<and> (pages demo_empty_story = [] \<and> currentStory demo_viewer_empty = Some demo_empty_story)
   \<and> populateBook demo_empty_data demo_book = Threw TypeError demo_book
   \<and> sd_pages demo_data \<noteq> []
   \<and> addStoryPages demo_empty_story demo_flipbook = Threw TypeError demo_flipbook
   \<and> pages demo_story \<noteq> []
   \<and> (\<exists>b2. populateBook demo_data (book_init []) = Returned b2
         \<and> content (page_els b2 ! length (page_els (book_init [])))
             = FrontCover (sd_title demo_data) (pd_image demo_page_data) (sd_ageRange demo_data))
   \<and> (\<exists>f2. addStoryPages demo_story demo_flipbook = Returned f2
         \<and> fb_image (hd (fb_pages f2)) = Some (image_url demo_page1)
         \<and> length (fb_pages f2) = length (pages demo_story) + 2)
   \<and> (\<exists>v2. displayStory demo_empty_story demo_viewer_empty = Returned v2
         \<and> coverImage v2 = coverImage demo_viewer_empty
         \<and> currentPageIndex v2 = 0
         \<and> (\<not> traditionalBook_hidden demo_viewer_empty \<longrightarrow> pageEls v2 = []))"
proof -
  have h1: "sd_pages demo_empty_data = []"
    and h2: "\<not> threw (populateBook demo_data (book_init []))"
    and h3: "pages demo_empty_story = []"
    and h4: "\<not> threw (addStoryPages demo_story demo_flipbook)"
    and h5: "sd_pages demo_data = demo_page_data # [] \<and> book_rotation (book_init []) = Some 0"
    and h6: "pages demo_story = demo_page1 # [demo_page2]"
    and h7: "pages demo_empty_story = [] \<and> currentStory demo_viewer_empty = Some demo_empty_story"
    by code_simp+
  show ?thesis
    using h1 h2 h3 h4 h5 h6 h7
      cover_reads_first_page_unguarded
        [where d = demo_empty_data and b = demo_book and d' = demo_data and b' = "book_init []"
           and st = demo_empty_story and f = demo_flipbook and st' = demo_story
           and f' = demo_flipbook and p = demo_page_data and ps = "[]" and r = 0
           and p' = demo_page1 and ps' = "[demo_page2]" and v = demo_viewer_empty]
    by blast
qed

end
